theory Spec2Isabelle
  imports Main "HOL-Library.Word"
begin

unbundle bit_operations_syntax

section \<open>The TCP socket utility layer of tcp-sock.c\<close>

text \<open>
  Every function of \<^verbatim>\<open>tcp-sock.c\<close> is a short sequence of BSD socket calls. The
  operating system is not part of the program, so it is a parameter here: an \<open>os\<close>
  answers every call, and its answer may depend on all the calls made before (the trace).
  Each function takes the trace so far and returns its result with the extended trace, so
  that what was called, in which order and with which arguments can be stated.

  C types on the platform the source is written for (Linux, LP64): \<open>int\<close> is a 32-bit
  word, \<open>size_t\<close>, \<open>ssize_t\<close>, \<open>time_t\<close> and \<open>suseconds_t\<close> are 64-bit
  words. Signed comparisons are \<open><s\<close> and \<open>\<le>s\<close>.
\<close>

type_synonym c_int = "32 word"
type_synonym size_t = "64 word"
type_synonym ssize_t = "64 word"
type_synonym byte = "8 word"

subsection \<open>Arguments of the socket calls\<close>

text \<open>
  The address family, the socket type, the option level and the receive flags are kept
  symbolic. An option name is the integer the call is given, because line 66 of the source
  combines two names with the bitwise or of C: the names have the values of the Linux
  headers (\<^verbatim>\<open>asm-generic/socket.h\<close>, \<^verbatim>\<open>netinet/tcp.h\<close>), the system whose
  \<^verbatim>\<open>TCP_KEEPIDLE\<close> the source uses.
\<close>

datatype domain = AF_INET
datatype socktype = SOCK_STREAM
datatype level = SOL_SOCKET | IPPROTO_TCP

type_synonym optname = c_int

definition SO_REUSEADDR :: optname where
  "SO_REUSEADDR = 2"

definition SO_KEEPALIVE :: optname where
  "SO_KEEPALIVE = 9"

definition SO_REUSEPORT :: optname where
  "SO_REUSEPORT = 15"

definition TCP_KEEPIDLE :: optname where
  "TCP_KEEPIDLE = 4"

definition TCP_KEEPINTVL :: optname where
  "TCP_KEEPINTVL = 5"

definition TCP_KEEPCNT :: optname where
  "TCP_KEEPCNT = 6"

datatype msg_flag = MSG_PEEK | MSG_DONTWAIT

record sockaddr_in =
  sin_family :: domain
  sin_addr :: "32 word"
  sin_port :: "16 word"

record timeval =
  tv_sec :: "64 word"
  tv_usec :: "64 word"

definition INADDR_ANY :: "32 word" where
  "INADDR_ANY = 0"

definition EXIT_FAILURE :: c_int where
  "EXIT_FAILURE = 1"

text \<open>
  \<^verbatim>\<open>htons\<close> takes a \<^verbatim>\<open>uint16_t\<close>: the \<open>int\<close> port is cut to its low 16 bits. The
  byte order of the result is a matter of representation; the record keeps the number.
\<close>

definition htons :: "c_int \<Rightarrow> 16 word" where
  "htons p = ucast p"

subsection \<open>Calls, traces and the operating system\<close>

text \<open>An event is one library or system call with its arguments and what it returned.\<close>

datatype event =
    EvSocket domain socktype c_int c_int
  | EvBind c_int sockaddr_in c_int
  | EvClose c_int c_int
  | EvSetsockopt c_int level optname c_int c_int
  | EvListen c_int c_int c_int
  | EvInet_pton domain string c_int
  | EvConnect c_int sockaddr_in c_int
  | EvSend c_int "byte list" "msg_flag list" ssize_t
  | EvRecv c_int size_t "msg_flag list" ssize_t "byte list"
  | EvSelect c_int "c_int list" timeval c_int
  | EvPerror string
  | EvPrintf string "c_int list"
  | EvFprintf_stderr string "c_int list"

type_synonym trace = "event list"

text \<open>
  The calls that return an \<open>int\<close> return what the system answers, any value. \<open>send\<close>
  and \<open>recv\<close> return \<open>-1\<close> or a byte count that goes with the data moved: the system
  answers \<open>None\<close> for a failure, otherwise how many bytes it takes (\<open>send\<close>) or the
  bytes it has for the caller (\<open>recv\<close>), and the count is cut to the length asked for.
\<close>

record os =
  os_socket :: "trace \<Rightarrow> domain \<Rightarrow> socktype \<Rightarrow> c_int \<Rightarrow> c_int"
  os_bind :: "trace \<Rightarrow> c_int \<Rightarrow> sockaddr_in \<Rightarrow> c_int"
  os_close :: "trace \<Rightarrow> c_int \<Rightarrow> c_int"
  os_setsockopt :: "trace \<Rightarrow> c_int \<Rightarrow> level \<Rightarrow> optname \<Rightarrow> c_int \<Rightarrow> c_int"
  os_listen :: "trace \<Rightarrow> c_int \<Rightarrow> c_int \<Rightarrow> c_int"
  os_inet_pton :: "trace \<Rightarrow> domain \<Rightarrow> string \<Rightarrow> c_int \<times> 32 word"
  os_connect :: "trace \<Rightarrow> c_int \<Rightarrow> sockaddr_in \<Rightarrow> c_int"
  os_send :: "trace \<Rightarrow> c_int \<Rightarrow> byte list \<Rightarrow> msg_flag list \<Rightarrow> nat option"
  os_recv :: "trace \<Rightarrow> c_int \<Rightarrow> size_t \<Rightarrow> msg_flag list \<Rightarrow> byte list option"
  os_select :: "trace \<Rightarrow> c_int \<Rightarrow> c_int list \<Rightarrow> timeval \<Rightarrow> c_int"

definition sys_socket :: "os \<Rightarrow> trace \<Rightarrow> domain \<Rightarrow> socktype \<Rightarrow> c_int \<Rightarrow> c_int \<times> trace" where
  "sys_socket s tr d t p = (let r = os_socket s tr d t p in (r, tr @ [EvSocket d t p r]))"

definition sys_bind :: "os \<Rightarrow> trace \<Rightarrow> c_int \<Rightarrow> sockaddr_in \<Rightarrow> c_int \<times> trace" where
  "sys_bind s tr fd a = (let r = os_bind s tr fd a in (r, tr @ [EvBind fd a r]))"

definition sys_close :: "os \<Rightarrow> trace \<Rightarrow> c_int \<Rightarrow> c_int \<times> trace" where
  "sys_close s tr fd = (let r = os_close s tr fd in (r, tr @ [EvClose fd r]))"

definition sys_setsockopt ::
  "os \<Rightarrow> trace \<Rightarrow> c_int \<Rightarrow> level \<Rightarrow> optname \<Rightarrow> c_int \<Rightarrow> c_int \<times> trace" where
  "sys_setsockopt s tr fd l n v =
     (let r = os_setsockopt s tr fd l n v in (r, tr @ [EvSetsockopt fd l n v r]))"

definition sys_listen :: "os \<Rightarrow> trace \<Rightarrow> c_int \<Rightarrow> c_int \<Rightarrow> c_int \<times> trace" where
  "sys_listen s tr fd b = (let r = os_listen s tr fd b in (r, tr @ [EvListen fd b r]))"

definition sys_inet_pton :: "os \<Rightarrow> trace \<Rightarrow> domain \<Rightarrow> string \<Rightarrow> (c_int \<times> 32 word) \<times> trace" where
  "sys_inet_pton s tr d ip =
     (let (r, a) = os_inet_pton s tr d ip in ((r, a), tr @ [EvInet_pton d ip r]))"

definition sys_connect :: "os \<Rightarrow> trace \<Rightarrow> c_int \<Rightarrow> sockaddr_in \<Rightarrow> c_int \<times> trace" where
  "sys_connect s tr fd a = (let r = os_connect s tr fd a in (r, tr @ [EvConnect fd a r]))"

text \<open>
  \<open>send\<close> is offered the first \<open>len\<close> bytes of the caller's buffer and returns how many
  of them the system took.
\<close>

definition sys_send ::
  "os \<Rightarrow> trace \<Rightarrow> c_int \<Rightarrow> byte list \<Rightarrow> size_t \<Rightarrow> msg_flag list \<Rightarrow> ssize_t \<times> trace" where
  "sys_send s tr fd buf len fl =
     (let payload = take (unat len) buf;
          r = (case os_send s tr fd payload fl of
                 None \<Rightarrow> - 1
               | Some k \<Rightarrow> of_nat (min k (length payload)))
      in (r, tr @ [EvSend fd payload fl r]))"

text \<open>
  \<open>recv\<close> returns the count and the bytes the system delivered, at most \<open>len\<close> of them.
\<close>

definition sys_recv ::
  "os \<Rightarrow> trace \<Rightarrow> c_int \<Rightarrow> size_t \<Rightarrow> msg_flag list \<Rightarrow> (ssize_t \<times> byte list) \<times> trace" where
  "sys_recv s tr fd len fl =
     (let (r, d) = (case os_recv s tr fd len fl of
                      None \<Rightarrow> (- 1, [])
                    | Some bs \<Rightarrow> (of_nat (length (take (unat len) bs)), take (unat len) bs))
      in ((r, d), tr @ [EvRecv fd len fl r d]))"

definition sys_select :: "os \<Rightarrow> trace \<Rightarrow> c_int \<Rightarrow> c_int list \<Rightarrow> timeval \<Rightarrow> c_int \<times> trace" where
  "sys_select s tr nfds rd tv =
     (let r = os_select s tr nfds rd tv in (r, tr @ [EvSelect nfds rd tv r]))"

definition perror :: "trace \<Rightarrow> string \<Rightarrow> trace" where
  "perror tr msg = tr @ [EvPerror msg]"

definition printf :: "trace \<Rightarrow> string \<Rightarrow> c_int list \<Rightarrow> trace" where
  "printf tr fmt args = tr @ [EvPrintf fmt args]"

definition fprintf_stderr :: "trace \<Rightarrow> string \<Rightarrow> c_int list \<Rightarrow> trace" where
  "fprintf_stderr tr fmt args = tr @ [EvFprintf_stderr fmt args]"

text \<open>The bytes written into a caller's buffer replace its first bytes.\<close>

definition store_bytes :: "byte list \<Rightarrow> byte list \<Rightarrow> byte list" where
  "store_bytes buf d = d @ drop (length d) buf"

subsection \<open>isPortAvailable\<close>

definition isPortAvailable :: "os \<Rightarrow> trace \<Rightarrow> c_int \<Rightarrow> c_int \<times> trace" where
  "isPortAvailable s tr iPort =
     (let (iSock, tr1) = sys_socket s tr AF_INET SOCK_STREAM 0 in
      if iSock <s 0 then (- 1, tr1)
      else
        let addr = \<lparr>sin_family = AF_INET, sin_addr = INADDR_ANY, sin_port = htons iPort\<rparr>;
            (iResult, tr2) = sys_bind s tr1 iSock addr;
            (u, tr3) = sys_close s tr2 iSock
        in (if iResult = 0 then 0 else - 1, tr3))"

subsection \<open>createClientSocket\<close>

definition createClientSocket :: "os \<Rightarrow> trace \<Rightarrow> string \<Rightarrow> c_int \<Rightarrow> c_int \<times> trace" where
  "createClientSocket s tr kpchIp iPort =
     (let (iSock, tr1) = sys_socket s tr AF_INET SOCK_STREAM 0 in
      if iSock <s 0 then (- 1, perror tr1 ''Socket creation error'')
      else
        let ((r, a), tr2) = sys_inet_pton s tr1 AF_INET kpchIp;
            stSockServAddr = \<lparr>sin_family = AF_INET, sin_addr = a, sin_port = htons iPort\<rparr>
        in if r \<le>s 0 then (- 1, perror tr2 ''Invalid address/ Address not supported'')
           else
             let (c, tr3) = sys_connect s tr2 iSock stSockServAddr in
             if c <s 0 then (- 1, perror tr3 ''Connection failed'')
             else (iSock, tr3))"

subsection \<open>createServerSocket\<close>

text \<open>
  \<^verbatim>\<open>exit\<close> does not return: a function that may call it has an outcome, either the
  value it returned or the status the process ended with.
\<close>

datatype 'a outcome = Returned 'a | Exited c_int

definition createServerSocket :: "os \<Rightarrow> trace \<Rightarrow> c_int \<Rightarrow> c_int \<Rightarrow> c_int outcome \<times> trace" where
  "createServerSocket s tr iPort iMaxClients =
     (let iSockOpt = 1;
          (iServerSock, tr1) = sys_socket s tr AF_INET SOCK_STREAM 0 in
      if iServerSock = 0 then (Exited EXIT_FAILURE, perror tr1 ''Socket failed'')
      else
        let (r1, tr2) = sys_setsockopt s tr1 iServerSock SOL_SOCKET
                          (SO_REUSEADDR OR SO_REUSEPORT) iSockOpt in
        if r1 \<noteq> 0 then (Exited EXIT_FAILURE, perror tr2 ''Setsockopt failed'')
        else
          let keepalive = 1; keepidle = 10; keepinterval = 5; keepcount = 3;
              (r2, tr3) = sys_setsockopt s tr2 iServerSock SOL_SOCKET SO_KEEPALIVE keepalive in
          if r2 <s 0 then (Exited EXIT_FAILURE, perror tr3 ''Setsockopt SO_KEEPALIVE failed'')
          else
            let (r3, tr4) = sys_setsockopt s tr3 iServerSock IPPROTO_TCP TCP_KEEPIDLE keepidle in
            if r3 <s 0 then (Exited EXIT_FAILURE, perror tr4 ''Setsockopt TCP_KEEPIDLE failed'')
            else
              let (r4, tr5) = sys_setsockopt s tr4 iServerSock IPPROTO_TCP TCP_KEEPINTVL
                                keepinterval in
              if r4 <s 0 then (Exited EXIT_FAILURE, perror tr5 ''Setsockopt TCP_KEEPINTVL failed'')
              else
                let (r5, tr6) = sys_setsockopt s tr5 iServerSock IPPROTO_TCP TCP_KEEPCNT
                                  keepcount in
                if r5 <s 0 then (Exited EXIT_FAILURE, perror tr6 ''Setsockopt TCP_KEEPCNT failed'')
                else
                  let stSockAddr = \<lparr>sin_family = AF_INET, sin_addr = INADDR_ANY,
                                      sin_port = htons iPort\<rparr>;
                      (r6, tr7) = sys_bind s tr6 iServerSock stSockAddr in
                  if r6 <s 0 then (Exited EXIT_FAILURE, perror tr7 ''Bind failed'')
                  else
                    let (r7, tr8) = sys_listen s tr7 iServerSock iMaxClients in
                    if r7 <s 0 then (Exited EXIT_FAILURE, perror tr8 ''Listen failed'')
                    else (Returned iServerSock, tr8))"

subsection \<open>handleClientDisconnection and checkClientConnections\<close>

definition handleClientDisconnection :: "os \<Rightarrow> trace \<Rightarrow> c_int \<Rightarrow> trace" where
  "handleClientDisconnection s tr iClientSockfd =
     (let tr1 = printf tr (''Client disconnected, closing socket'' @ [CHR 0x0A]) [];
          (u, tr2) = sys_close s tr1 iClientSockfd
      in tr2)"

text \<open>
  The array is the list of its elements; the function gets a pointer and no length, so an
  index outside the list is an access outside the caller's array, which C leaves
  undefined: the body answers \<open>None\<close> there. The peek asks for \<open>sizeof(buffer) = 1\<close>
  byte, and its \<open>ssize_t\<close> result is stored in an \<open>int\<close>.
\<close>

definition checkClientConnections_body ::
  "os \<Rightarrow> c_int list \<times> trace \<Rightarrow> int \<Rightarrow> (c_int list \<times> trace) option" where
  "checkClientConnections_body s st i =
     (let (piClientSockets, tr) = st in
      if \<not> (0 \<le> i \<and> nat i < length piClientSockets) then None
      else if piClientSockets ! nat i \<noteq> 0 then
        let ((r, d), tr1) = sys_recv s tr (piClientSockets ! nat i) 1 [MSG_PEEK, MSG_DONTWAIT];
            result = (scast r :: c_int)
        in if result = 0 then
             let tr2 = printf tr1 (''Client socket %d appears to have disconnected'' @ [CHR 0x0A])
                         [piClientSockets ! nat i];
                 tr3 = handleClientDisconnection s tr2 (piClientSockets ! nat i)
             in Some (piClientSockets[nat i := 0], tr3)
           else Some (piClientSockets, tr1)
      else Some (piClientSockets, tr))"

text \<open>
  The loop \<^verbatim>\<open>for (int i = 0; i < iMaxClients; i++)\<close>. The counter is incremented only
  below the bound, so it never overflows and is an integer here.
\<close>

function checkClientConnections_loop ::
  "os \<Rightarrow> int \<Rightarrow> int \<Rightarrow> c_int list \<times> trace \<Rightarrow> (c_int list \<times> trace) option" where
  "checkClientConnections_loop s n i st =
     (if i < n then
        (case checkClientConnections_body s st i of
           None \<Rightarrow> None
         | Some st' \<Rightarrow> checkClientConnections_loop s n (i + 1) st')
      else Some st)"
  by pat_completeness auto
termination
  by (relation "measure (\<lambda>(s, n, i, st). nat (n - i))") auto

declare checkClientConnections_loop.simps [simp del]

definition checkClientConnections ::
  "os \<Rightarrow> trace \<Rightarrow> c_int list \<Rightarrow> c_int \<Rightarrow> (c_int list \<times> trace) option" where
  "checkClientConnections s tr piClientSockets iMaxClients =
     checkClientConnections_loop s (sint iMaxClients) 0 (piClientSockets, tr)"

subsection \<open>sendMessage, recvMsgBlocking and recvMsgTimeout\<close>

text \<open>
  The receive functions return the value, the caller's buffer after the call and the
  trace. The \<open>ssize_t\<close> count is returned through the cast \<^verbatim>\<open>(int)\<close>: the signed
  value is kept when it fits 32 bits, and cut to its low 32 bits otherwise (\<open>scast\<close>).
\<close>

definition sendMessage ::
  "os \<Rightarrow> trace \<Rightarrow> c_int \<Rightarrow> byte list \<Rightarrow> size_t \<Rightarrow> c_int \<times> trace" where
  "sendMessage s tr iSock cpvBuffer iLength =
     (let (sent, tr1) = sys_send s tr iSock cpvBuffer iLength [] in
      if sent <s 0 then (- 1, perror tr1 ''send failed'')
      else (scast sent, tr1))"

definition recvMsgBlocking ::
  "os \<Rightarrow> trace \<Rightarrow> c_int \<Rightarrow> byte list \<Rightarrow> size_t \<Rightarrow> c_int \<times> byte list \<times> trace" where
  "recvMsgBlocking s tr iSock pvBuffer iLength =
     (let ((received, d), tr1) = sys_recv s tr iSock iLength [] in
      if received <s 0 then (- 1, store_bytes pvBuffer d, perror tr1 ''recv failed'')
      else (scast received, store_bytes pvBuffer d, tr1))"

text \<open>
  \<^verbatim>\<open>TCP_TIME_OUT\<close> and \<^verbatim>\<open>TCP_DISCONNECTION\<close> are macros that \<^verbatim>\<open>tcp-sock.c\<close>
  uses and \<^verbatim>\<open>tcp-sock.h\<close> does not define: they are parameters.
\<close>

record sentinels =
  TCP_TIME_OUT :: c_int
  TCP_DISCONNECTION :: c_int

text \<open>
  Lines 218 and 219: \<^verbatim>\<open>tv_sec = 0; tv_usec = (iTimeoutMsec * 1000)\<close>. The product is
  computed in \<open>int\<close> (wrapping at 32 bits on the two's-complement machines the code runs
  on; C leaves the overflow undefined) and then widened to the 64-bit field.
\<close>

definition select_timeout :: "c_int \<Rightarrow> timeval" where
  "select_timeout iTimeoutMsec = \<lparr>tv_sec = 0, tv_usec = scast (iTimeoutMsec * 1000)\<rparr>"

definition recvMsgTimeout ::
  "sentinels \<Rightarrow> os \<Rightarrow> trace \<Rightarrow> c_int \<Rightarrow> byte list \<Rightarrow> size_t \<Rightarrow> c_int
     \<Rightarrow> c_int \<times> byte list \<times> trace" where
  "recvMsgTimeout k s tr iSock pvBuffer iLength iTimeoutMsec =
     (let read_fds = [iSock];
          timeout = select_timeout iTimeoutMsec;
          (ret, tr1) = sys_select s tr (iSock + 1) read_fds timeout in
      if ret <s 0 then (- 1, pvBuffer, perror tr1 ''select error'')
      else if ret = 0 then
        (TCP_TIME_OUT k, pvBuffer,
         fprintf_stderr tr1 (''Timeout: no data received within %d seconds.'' @ [CHR 0x0A])
           [iTimeoutMsec])
      else
        let ((received, d), tr2) = sys_recv s tr1 iSock iLength [] in
        if received <s 0 then (- 1, store_bytes pvBuffer d, perror tr2 ''recv failed'')
        else if received = 0 then (TCP_DISCONNECTION k, store_bytes pvBuffer d, tr2)
        else (scast received, store_bytes pvBuffer d, tr2))"

section \<open>Reading a trace\<close>

text \<open>The events a call added to the trace it was given.\<close>

definition new_events :: "trace \<Rightarrow> trace \<Rightarrow> trace" where
  "new_events tr tr' = drop (length tr) tr'"

text \<open>The \<open>recv\<close> calls of a trace: descriptor, length, flags, returned count, bytes.\<close>

fun recv_of :: "event \<Rightarrow> (c_int \<times> size_t \<times> msg_flag list \<times> ssize_t \<times> byte list) list" where
  "recv_of (EvRecv fd len fl r d) = [(fd, len, fl, r, d)]"
| "recv_of (EvSocket d t p r) = []"
| "recv_of (EvBind fd a r) = []"
| "recv_of (EvClose fd r) = []"
| "recv_of (EvSetsockopt fd l n v r) = []"
| "recv_of (EvListen fd b r) = []"
| "recv_of (EvInet_pton d ip r) = []"
| "recv_of (EvConnect fd a r) = []"
| "recv_of (EvSend fd bs fl r) = []"
| "recv_of (EvSelect n rd tv r) = []"
| "recv_of (EvPerror m) = []"
| "recv_of (EvPrintf f a) = []"
| "recv_of (EvFprintf_stderr f a) = []"

definition recv_calls :: "trace \<Rightarrow> (c_int \<times> size_t \<times> msg_flag list \<times> ssize_t \<times> byte list) list" where
  "recv_calls tr = concat (map recv_of tr)"

text \<open>The descriptors passed to \<open>close\<close>, and the timeouts passed to \<open>select\<close>.\<close>

fun close_of :: "event \<Rightarrow> c_int list" where
  "close_of (EvClose fd r) = [fd]"
| "close_of (EvSocket d t p r) = []"
| "close_of (EvBind fd a r) = []"
| "close_of (EvSetsockopt fd l n v r) = []"
| "close_of (EvListen fd b r) = []"
| "close_of (EvInet_pton d ip r) = []"
| "close_of (EvConnect fd a r) = []"
| "close_of (EvSend fd bs fl r) = []"
| "close_of (EvRecv fd len fl r d) = []"
| "close_of (EvSelect n rd tv r) = []"
| "close_of (EvPerror m) = []"
| "close_of (EvPrintf f a) = []"
| "close_of (EvFprintf_stderr f a) = []"

definition close_calls :: "trace \<Rightarrow> c_int list" where
  "close_calls tr = concat (map close_of tr)"

fun select_of :: "event \<Rightarrow> timeval list" where
  "select_of (EvSelect n rd tv r) = [tv]"
| "select_of (EvSocket d t p r) = []"
| "select_of (EvBind fd a r) = []"
| "select_of (EvClose fd r) = []"
| "select_of (EvSetsockopt fd l n v r) = []"
| "select_of (EvListen fd b r) = []"
| "select_of (EvInet_pton d ip r) = []"
| "select_of (EvConnect fd a r) = []"
| "select_of (EvSend fd bs fl r) = []"
| "select_of (EvRecv fd len fl r d) = []"
| "select_of (EvPerror m) = []"
| "select_of (EvPrintf f a) = []"
| "select_of (EvFprintf_stderr f a) = []"

definition select_timeouts :: "trace \<Rightarrow> timeval list" where
  "select_timeouts tr = concat (map select_of tr)"

text \<open>
  A call has failed when it returned a negative value (\<open>-1\<close> in POSIX). Printing does
  not fail here.
\<close>

fun failed :: "event \<Rightarrow> bool" where
  "failed (EvSocket d t p r) = (r <s 0)"
| "failed (EvBind fd a r) = (r <s 0)"
| "failed (EvClose fd r) = (r <s 0)"
| "failed (EvSetsockopt fd l n v r) = (r <s 0)"
| "failed (EvListen fd b r) = (r <s 0)"
| "failed (EvInet_pton d ip r) = (r <s 0)"
| "failed (EvConnect fd a r) = (r <s 0)"
| "failed (EvSend fd bs fl r) = (r <s 0)"
| "failed (EvRecv fd len fl r d) = (r <s 0)"
| "failed (EvSelect n rd tv r) = (r <s 0)"
| "failed (EvPerror m) = False"
| "failed (EvPrintf f a) = False"
| "failed (EvFprintf_stderr f a) = False"

text \<open>
  The descriptors that are open after a trace: \<open>socket\<close> opens the one it returns, a
  \<open>close\<close> that returns 0 releases its argument.
\<close>

fun track :: "event \<Rightarrow> c_int set \<Rightarrow> c_int set" where
  "track (EvSocket d t p r) F = (if r <s 0 then F else insert r F)"
| "track (EvClose fd r) F = (if r = 0 then F - {fd} else F)"
| "track (EvBind fd a r) F = F"
| "track (EvSetsockopt fd l n v r) F = F"
| "track (EvListen fd b r) F = F"
| "track (EvInet_pton d ip r) F = F"
| "track (EvConnect fd a r) F = F"
| "track (EvSend fd bs fl r) F = F"
| "track (EvRecv fd len fl r d) F = F"
| "track (EvSelect n rd tv r) F = F"
| "track (EvPerror m) F = F"
| "track (EvPrintf f a) F = F"
| "track (EvFprintf_stderr f a) F = F"

definition open_fds :: "trace \<Rightarrow> c_int set" where
  "open_fds tr = fold track tr {}"

text \<open>
  The value an option of a descriptor has after a trace, as \<open>getsockopt\<close> would read it:
  the value of the last \<open>setsockopt\<close> on it that did not fail, forgotten when the
  descriptor is created anew or closed. \<open>None\<close> is the system's default.
\<close>

fun opt_step :: "c_int \<Rightarrow> level \<Rightarrow> optname \<Rightarrow> event \<Rightarrow> c_int option \<Rightarrow> c_int option" where
  "opt_step fd l n (EvSetsockopt fd' l' n' v r) cur =
     (if fd' = fd \<and> l' = l \<and> n' = n \<and> \<not> r <s 0 then Some v else cur)"
| "opt_step fd l n (EvSocket d t p r) cur = (if r = fd then None else cur)"
| "opt_step fd l n (EvClose fd' r) cur = (if fd' = fd \<and> r = 0 then None else cur)"
| "opt_step fd l n (EvBind fd' a r) cur = cur"
| "opt_step fd l n (EvListen fd' b r) cur = cur"
| "opt_step fd l n (EvInet_pton d ip r) cur = cur"
| "opt_step fd l n (EvConnect fd' a r) cur = cur"
| "opt_step fd l n (EvSend fd' bs fl r) cur = cur"
| "opt_step fd l n (EvRecv fd' len fl r d) cur = cur"
| "opt_step fd l n (EvSelect k rd tv r) cur = cur"
| "opt_step fd l n (EvPerror m) cur = cur"
| "opt_step fd l n (EvPrintf f a) cur = cur"
| "opt_step fd l n (EvFprintf_stderr f a) cur = cur"

definition option_value :: "trace \<Rightarrow> c_int \<Rightarrow> level \<Rightarrow> optname \<Rightarrow> c_int option" where
  "option_value tr fd l n = fold (opt_step fd l n) tr None"

section \<open>Operating systems to run the functions on\<close>

text \<open>
  A system that answers every call the same way: \<open>socket\<close> returns \<open>sock\<close>, the calls
  on a descriptor return \<open>rc\<close> (and \<open>-1\<close> on a negative descriptor, which no system
  accepts), \<open>select\<close> returns \<open>sel\<close>, \<open>recv\<close> on a descriptor delivers \<open>rcv fd\<close>,
  \<open>send\<close> takes everything, and the only address that parses is 127.0.0.1.
\<close>

definition fixed_os :: "c_int \<Rightarrow> c_int \<Rightarrow> c_int \<Rightarrow> (c_int \<Rightarrow> byte list option) \<Rightarrow> os" where
  "fixed_os sock rc sel rcv =
     \<lparr>os_socket = (\<lambda>tr d t p. sock),
      os_bind = (\<lambda>tr fd a. if fd <s 0 then - 1 else rc),
      os_close = (\<lambda>tr fd. if fd <s 0 then - 1 else 0),
      os_setsockopt = (\<lambda>tr fd l n v. if fd <s 0 then - 1 else rc),
      os_listen = (\<lambda>tr fd b. if fd <s 0 then - 1 else rc),
      os_inet_pton = (\<lambda>tr d ip. if ip = ''127.0.0.1'' then (1, 0x7F000001) else (0, 0)),
      os_connect = (\<lambda>tr fd a. if fd <s 0 then - 1 else rc),
      os_send = (\<lambda>tr fd bs fl. if fd <s 0 then None else Some (length bs)),
      os_recv = (\<lambda>tr fd len fl. if fd <s 0 then None else rcv fd),
      os_select = (\<lambda>tr n rd tv. sel)\<rparr>"

text \<open>
  Values for the two macros, to run \<open>recvMsgTimeout\<close> on: 0 for the timeout, as the
  header's comment and the tests have it, and a value of its own for the disconnection.
\<close>

definition sample_sentinels :: sentinels where
  "sample_sentinels = \<lparr>TCP_TIME_OUT = 0, TCP_DISCONNECTION = - 2\<rparr>"

text \<open>
  A pool to scan: the peer of descriptor 5 has closed (the peek returns 0), descriptor 7
  has nothing to read or is in error (the peek fails), any other has a byte waiting.
\<close>

definition pool_os :: os where
  "pool_os = fixed_os 3 0 0 (\<lambda>fd. if fd = 5 then Some [] else if fd = 7 then None else Some [1])"

text \<open>
  A connected pair of stream sockets, \<open>a\<close> writing and \<open>b\<close> reading. The bytes in flight
  are those the sends on \<open>a\<close> were credited with, less those the receives on \<open>b\<close>
  took out (a peek takes nothing out). One \<open>send\<close> takes at most \<open>k\<close> bytes, one
  \<open>recv\<close> delivers at most \<open>m\<close> of the bytes in flight, in order. With nothing in flight
  a blocking \<open>recv\<close> would wait; this system has it fail instead.
\<close>

fun accepted :: "c_int \<Rightarrow> event \<Rightarrow> byte list" where
  "accepted a (EvSend fd bs fl r) = (if fd = a \<and> \<not> r <s 0 then take (unat r) bs else [])"
| "accepted a (EvSocket d t p r) = []"
| "accepted a (EvBind fd ad r) = []"
| "accepted a (EvClose fd r) = []"
| "accepted a (EvSetsockopt fd l n v r) = []"
| "accepted a (EvListen fd b r) = []"
| "accepted a (EvInet_pton d ip r) = []"
| "accepted a (EvConnect fd ad r) = []"
| "accepted a (EvRecv fd len fl r d) = []"
| "accepted a (EvSelect n rd tv r) = []"
| "accepted a (EvPerror m) = []"
| "accepted a (EvPrintf f ar) = []"
| "accepted a (EvFprintf_stderr f ar) = []"

fun delivered :: "c_int \<Rightarrow> event \<Rightarrow> nat" where
  "delivered b (EvRecv fd len fl r d) = (if fd = b \<and> MSG_PEEK \<notin> set fl then length d else 0)"
| "delivered b (EvSocket d t p r) = 0"
| "delivered b (EvBind fd ad r) = 0"
| "delivered b (EvClose fd r) = 0"
| "delivered b (EvSetsockopt fd l n v r) = 0"
| "delivered b (EvListen fd bl r) = 0"
| "delivered b (EvInet_pton d ip r) = 0"
| "delivered b (EvConnect fd ad r) = 0"
| "delivered b (EvSend fd bs fl r) = 0"
| "delivered b (EvSelect n rd tv r) = 0"
| "delivered b (EvPerror m) = 0"
| "delivered b (EvPrintf f ar) = 0"
| "delivered b (EvFprintf_stderr f ar) = 0"

definition in_flight :: "c_int \<Rightarrow> c_int \<Rightarrow> trace \<Rightarrow> byte list" where
  "in_flight a b tr = drop (sum_list (map (delivered b) tr)) (concat (map (accepted a) tr))"

definition stream_os :: "c_int \<Rightarrow> c_int \<Rightarrow> nat \<Rightarrow> nat \<Rightarrow> os" where
  "stream_os a b k m =
     \<lparr>os_socket = (\<lambda>tr d t p. - 1),
      os_bind = (\<lambda>tr fd ad. - 1),
      os_close = (\<lambda>tr fd. 0),
      os_setsockopt = (\<lambda>tr fd l n v. 0),
      os_listen = (\<lambda>tr fd bl. - 1),
      os_inet_pton = (\<lambda>tr d ip. (0, 0)),
      os_connect = (\<lambda>tr fd ad. - 1),
      os_send = (\<lambda>tr fd bs fl. if fd = a then Some k else None),
      os_recv = (\<lambda>tr fd len fl.
                   if fd = b \<and> in_flight a b tr \<noteq> [] then Some (take m (in_flight a b tr))
                   else None),
      os_select = (\<lambda>tr n rd tv. if in_flight a b tr = [] then 0 else 1)\<rparr>"

section \<open>What the calls unfold to\<close>

lemmas sys_defs = sys_socket_def sys_bind_def sys_close_def sys_setsockopt_def sys_listen_def
  sys_inet_pton_def sys_connect_def sys_send_def sys_recv_def sys_select_def perror_def
  printf_def fprintf_stderr_def

lemma new_events_append: "new_events tr (tr @ es) = es"
  by (simp add: new_events_def)

lemma isPortAvailable_unfold:
  "isPortAvailable s tr iPort =
     (let iSock = os_socket s tr AF_INET SOCK_STREAM 0;
          tr1 = tr @ [EvSocket AF_INET SOCK_STREAM 0 iSock];
          addr = \<lparr>sin_family = AF_INET, sin_addr = INADDR_ANY, sin_port = htons iPort\<rparr>;
          b = os_bind s tr1 iSock addr;
          tr2 = tr1 @ [EvBind iSock addr b];
          c = os_close s tr2 iSock
      in if iSock <s 0 then (- 1, tr1)
         else (if b = 0 then 0 else - 1, tr2 @ [EvClose iSock c]))"
  by (simp add: isPortAvailable_def sys_defs Let_def)

lemma createClientSocket_unfold:
  "createClientSocket s tr ip iPort =
     (let iSock = os_socket s tr AF_INET SOCK_STREAM 0;
          tr1 = tr @ [EvSocket AF_INET SOCK_STREAM 0 iSock];
          p = os_inet_pton s tr1 AF_INET ip;
          tr2 = tr1 @ [EvInet_pton AF_INET ip (fst p)];
          addr = \<lparr>sin_family = AF_INET, sin_addr = snd p, sin_port = htons iPort\<rparr>;
          c = os_connect s tr2 iSock addr;
          tr3 = tr2 @ [EvConnect iSock addr c]
      in if iSock <s 0 then (- 1, tr1 @ [EvPerror ''Socket creation error''])
         else if fst p \<le>s 0
           then (- 1, tr2 @ [EvPerror ''Invalid address/ Address not supported''])
         else if c <s 0 then (- 1, tr3 @ [EvPerror ''Connection failed''])
         else (iSock, tr3))"
  by (simp add: createClientSocket_def sys_defs Let_def case_prod_beta)

lemma open_fds_append: "open_fds (tr @ es) = fold track es (open_fds tr)"
  by (simp add: open_fds_def)

lemma recvMsgTimeout_unfold:
  "recvMsgTimeout k s tr iSock buf len t =
     (let tv = select_timeout t;
          sel = os_select s tr (iSock + 1) [iSock] tv;
          tr1 = tr @ [EvSelect (iSock + 1) [iSock] tv sel];
          rd = fst (sys_recv s tr1 iSock len []);
          tr2 = tr1 @ [EvRecv iSock len [] (fst rd) (snd rd)]
      in if sel <s 0 then (- 1, buf, tr1 @ [EvPerror ''select error''])
         else if sel = 0 then
           (TCP_TIME_OUT k, buf,
            tr1 @ [EvFprintf_stderr (''Timeout: no data received within %d seconds.'' @ [CHR 0x0A])
                     [t]])
         else if fst rd <s 0
           then (- 1, store_bytes buf (snd rd), tr2 @ [EvPerror ''recv failed''])
         else if fst rd = 0 then (TCP_DISCONNECTION k, store_bytes buf (snd rd), tr2)
         else (scast (fst rd), store_bytes buf (snd rd), tr2))"
  by (simp add: recvMsgTimeout_def sys_defs Let_def case_prod_beta)

lemma option_value_append:
  "option_value (tr @ es) fd l n = fold (opt_step fd l n) es (option_value tr fd l n)"
  by (simp add: option_value_def)

lemma createServerSocket_unfold:
  "createServerSocket s tr iPort iMaxClients =
     (let fd = os_socket s tr AF_INET SOCK_STREAM 0;
          tr1 = tr @ [EvSocket AF_INET SOCK_STREAM 0 fd];
          r1 = os_setsockopt s tr1 fd SOL_SOCKET (SO_REUSEADDR OR SO_REUSEPORT) 1;
          tr2 = tr1 @ [EvSetsockopt fd SOL_SOCKET (SO_REUSEADDR OR SO_REUSEPORT) 1 r1];
          r2 = os_setsockopt s tr2 fd SOL_SOCKET SO_KEEPALIVE 1;
          tr3 = tr2 @ [EvSetsockopt fd SOL_SOCKET SO_KEEPALIVE 1 r2];
          r3 = os_setsockopt s tr3 fd IPPROTO_TCP TCP_KEEPIDLE 10;
          tr4 = tr3 @ [EvSetsockopt fd IPPROTO_TCP TCP_KEEPIDLE 10 r3];
          r4 = os_setsockopt s tr4 fd IPPROTO_TCP TCP_KEEPINTVL 5;
          tr5 = tr4 @ [EvSetsockopt fd IPPROTO_TCP TCP_KEEPINTVL 5 r4];
          r5 = os_setsockopt s tr5 fd IPPROTO_TCP TCP_KEEPCNT 3;
          tr6 = tr5 @ [EvSetsockopt fd IPPROTO_TCP TCP_KEEPCNT 3 r5];
          addr = \<lparr>sin_family = AF_INET, sin_addr = INADDR_ANY, sin_port = htons iPort\<rparr>;
          r6 = os_bind s tr6 fd addr;
          tr7 = tr6 @ [EvBind fd addr r6];
          r7 = os_listen s tr7 fd iMaxClients;
          tr8 = tr7 @ [EvListen fd iMaxClients r7]
      in if fd = 0 then (Exited EXIT_FAILURE, tr1 @ [EvPerror ''Socket failed''])
         else if r1 \<noteq> 0 then (Exited EXIT_FAILURE, tr2 @ [EvPerror ''Setsockopt failed''])
         else if r2 <s 0
           then (Exited EXIT_FAILURE, tr3 @ [EvPerror ''Setsockopt SO_KEEPALIVE failed''])
         else if r3 <s 0
           then (Exited EXIT_FAILURE, tr4 @ [EvPerror ''Setsockopt TCP_KEEPIDLE failed''])
         else if r4 <s 0
           then (Exited EXIT_FAILURE, tr5 @ [EvPerror ''Setsockopt TCP_KEEPINTVL failed''])
         else if r5 <s 0
           then (Exited EXIT_FAILURE, tr6 @ [EvPerror ''Setsockopt TCP_KEEPCNT failed''])
         else if r6 <s 0 then (Exited EXIT_FAILURE, tr7 @ [EvPerror ''Bind failed''])
         else if r7 <s 0 then (Exited EXIT_FAILURE, tr8 @ [EvPerror ''Listen failed''])
         else (Returned fd, tr8))"
  by (simp add: createServerSocket_def sys_defs Let_def case_prod_beta)

section \<open>Conversions between the integer types\<close>

lemma sint_int_cast:
  assumes "- (2 ^ 31) \<le> sint (w :: 64 word)" "sint w < 2 ^ 31"
  shows "sint (scast w :: 32 word) = sint w"
proof -
  have "sint (scast w :: 32 word) = signed_take_bit 31 (sint w)"
    by (simp add: signed_scast_eq)
  also have "\<dots> = sint w"
    using assms by (intro signed_take_bit_int_eq_self) simp_all
  finally show ?thesis .
qed

lemma sint_scast_up: "sint (scast (w :: 32 word) :: 64 word) = sint w"
  by (simp add: sint_up_scast is_up)

lemma sint_mul_1000:
  assumes "- 2147483 \<le> sint (t :: 32 word)" "sint t \<le> 2147483"
  shows "sint (t * 1000) = sint t * 1000"
proof -
  have "sint (t * 1000) = signed_take_bit 31 (sint t * 1000)"
    by (simp add: sint_word_ariths)
  also have "\<dots> = sint t * 1000"
    using assms by (intro signed_take_bit_int_eq_self) simp_all
  finally show ?thesis .
qed

section \<open>The port availability probe\<close>

text \<open>
  C6. \<open>isPortAvailable\<close> opens a socket with \<open>socket(AF_INET, SOCK_STREAM, 0)\<close>. When
  that gives a descriptor, the function makes exactly three calls: the \<open>socket\<close>, one
  \<open>bind\<close> of the descriptor to \<open>INADDR_ANY\<close> and the port, and one \<open>close\<close> of the
  descriptor, whatever the \<open>bind\<close> returned; it returns 0 when the \<open>bind\<close> returned 0
  and \<open>-1\<close> otherwise. When no socket could be opened nothing is bound or closed and the
  result is \<open>-1\<close>, so the result is 0 only after a \<open>bind\<close> that succeeded.
\<close>

theorem isPortAvailable_probe:
  assumes sock: "iSock = os_socket s tr AF_INET SOCK_STREAM 0"
    and addr: "addr = \<lparr>sin_family = AF_INET, sin_addr = INADDR_ANY, sin_port = htons iPort\<rparr>"
    and bind: "b = os_bind s (tr @ [EvSocket AF_INET SOCK_STREAM 0 iSock]) iSock addr"
    and close: "c = os_close s (tr @ [EvSocket AF_INET SOCK_STREAM 0 iSock, EvBind iSock addr b])
                      iSock"
  shows "(\<not> iSock <s 0 \<longrightarrow>
            new_events tr (snd (isPortAvailable s tr iPort)) =
              [EvSocket AF_INET SOCK_STREAM 0 iSock, EvBind iSock addr b, EvClose iSock c]
            \<and> (b = 0 \<longrightarrow> fst (isPortAvailable s tr iPort) = 0)
            \<and> (b \<noteq> 0 \<longrightarrow> fst (isPortAvailable s tr iPort) = - 1))
       \<and> (iSock <s 0 \<longrightarrow>
            new_events tr (snd (isPortAvailable s tr iPort)) =
              [EvSocket AF_INET SOCK_STREAM 0 iSock]
            \<and> fst (isPortAvailable s tr iPort) = - 1)"
  using assms by (simp add: isPortAvailable_unfold Let_def new_events_def)

theorem isPortAvailable_probe_witness:
  "(fst (isPortAvailable (fixed_os 3 0 0 (\<lambda>fd. None)) [] 8080) = 0
    \<and> new_events [] (snd (isPortAvailable (fixed_os 3 0 0 (\<lambda>fd. None)) [] 8080)) =
        [EvSocket AF_INET SOCK_STREAM 0 3,
         EvBind 3 \<lparr>sin_family = AF_INET, sin_addr = INADDR_ANY, sin_port = htons 8080\<rparr> 0,
         EvClose 3 0])
   \<and> (fst (isPortAvailable (fixed_os 3 (- 1) 0 (\<lambda>fd. None)) [] 8080) = - 1
    \<and> new_events [] (snd (isPortAvailable (fixed_os 3 (- 1) 0 (\<lambda>fd. None)) [] 8080)) =
        [EvSocket AF_INET SOCK_STREAM 0 3,
         EvBind 3 \<lparr>sin_family = AF_INET, sin_addr = INADDR_ANY, sin_port = htons 8080\<rparr> (- 1),
         EvClose 3 0])
   \<and> fst (isPortAvailable (fixed_os (- 1) 0 0 (\<lambda>fd. None)) [] 8080) = - 1"
  using
    isPortAvailable_probe [where s = "fixed_os 3 0 0 (\<lambda>fd. None)" and tr = "[]"
      and iPort = 8080, OF refl refl refl refl]
    isPortAvailable_probe [where s = "fixed_os 3 (- 1) 0 (\<lambda>fd. None)" and tr = "[]"
      and iPort = 8080, OF refl refl refl refl]
    isPortAvailable_probe [where s = "fixed_os (- 1) 0 0 (\<lambda>fd. None)" and tr = "[]"
      and iPort = 8080, OF refl refl refl refl]
  by (simp add: fixed_os_def word_sless_alt)

section \<open>The client socket\<close>

text \<open>
  C8. \<open>createClientSocket\<close> returns \<open>-1\<close> when \<open>socket\<close> returns a negative value,
  when \<open>inet_pton(AF_INET, ip)\<close> returns 0 or less (the string is not an IPv4 literal),
  and when \<open>connect\<close> returns a negative value; otherwise it returns the descriptor that
  \<open>socket\<close> gave. The calls it makes are \<open>socket\<close>, then \<open>inet_pton\<close> on the string
  as it is, then \<open>connect\<close> to the parsed address, stopping at the first failure with a
  \<open>perror\<close>: the address is never looked up by name.
\<close>

theorem createClientSocket_result:
  assumes sock: "iSock = os_socket s tr AF_INET SOCK_STREAM 0"
    and pton: "p = os_inet_pton s (tr @ [EvSocket AF_INET SOCK_STREAM 0 iSock]) AF_INET ip"
    and addr: "addr = \<lparr>sin_family = AF_INET, sin_addr = snd p, sin_port = htons iPort\<rparr>"
    and conn: "c = os_connect s
                 (tr @ [EvSocket AF_INET SOCK_STREAM 0 iSock, EvInet_pton AF_INET ip (fst p)])
                 iSock addr"
    and res: "R = createClientSocket s tr ip iPort"
  shows "(iSock <s 0 \<longrightarrow>
            fst R = - 1
            \<and> new_events tr (snd R) =
                [EvSocket AF_INET SOCK_STREAM 0 iSock, EvPerror ''Socket creation error''])
       \<and> (\<not> iSock <s 0 \<and> fst p \<le>s 0 \<longrightarrow>
            fst R = - 1
            \<and> new_events tr (snd R) =
                [EvSocket AF_INET SOCK_STREAM 0 iSock, EvInet_pton AF_INET ip (fst p),
                 EvPerror ''Invalid address/ Address not supported''])
       \<and> (\<not> iSock <s 0 \<and> \<not> fst p \<le>s 0 \<and> c <s 0 \<longrightarrow>
            fst R = - 1
            \<and> new_events tr (snd R) =
                [EvSocket AF_INET SOCK_STREAM 0 iSock, EvInet_pton AF_INET ip (fst p),
                 EvConnect iSock addr c, EvPerror ''Connection failed''])
       \<and> (\<not> iSock <s 0 \<and> \<not> fst p \<le>s 0 \<and> \<not> c <s 0 \<longrightarrow>
            fst R = iSock
            \<and> new_events tr (snd R) =
                [EvSocket AF_INET SOCK_STREAM 0 iSock, EvInet_pton AF_INET ip (fst p),
                 EvConnect iSock addr c])"
  using assms by (simp add: createClientSocket_unfold Let_def new_events_def)

theorem createClientSocket_result_witness:
  "fst (createClientSocket (fixed_os 3 0 0 (\<lambda>fd. None)) [] ''127.0.0.1'' 12347) = 3
   \<and> new_events [] (snd (createClientSocket (fixed_os 3 0 0 (\<lambda>fd. None)) [] ''127.0.0.1'' 12347)) =
       [EvSocket AF_INET SOCK_STREAM 0 3, EvInet_pton AF_INET ''127.0.0.1'' 1,
        EvConnect 3 \<lparr>sin_family = AF_INET, sin_addr = 0x7F000001, sin_port = htons 12347\<rparr> 0]
   \<and> fst (createClientSocket (fixed_os (- 1) 0 0 (\<lambda>fd. None)) [] ''127.0.0.1'' 12347) = - 1
   \<and> fst (createClientSocket (fixed_os 3 0 0 (\<lambda>fd. None)) [] ''localhost'' 12347) = - 1
   \<and> new_events [] (snd (createClientSocket (fixed_os 3 0 0 (\<lambda>fd. None)) [] ''localhost'' 12347)) =
       [EvSocket AF_INET SOCK_STREAM 0 3, EvInet_pton AF_INET ''localhost'' 0,
        EvPerror ''Invalid address/ Address not supported'']
   \<and> fst (createClientSocket (fixed_os 3 (- 1) 0 (\<lambda>fd. None)) [] ''127.0.0.1'' 12347) = - 1"
  using
    createClientSocket_result [where s = "fixed_os 3 0 0 (\<lambda>fd. None)" and tr = "[]"
      and ip = "''127.0.0.1''" and iPort = 12347, OF refl refl refl refl refl]
    createClientSocket_result [where s = "fixed_os (- 1) 0 0 (\<lambda>fd. None)" and tr = "[]"
      and ip = "''127.0.0.1''" and iPort = 12347, OF refl refl refl refl refl]
    createClientSocket_result [where s = "fixed_os 3 0 0 (\<lambda>fd. None)" and tr = "[]"
      and ip = "''localhost''" and iPort = 12347, OF refl refl refl refl refl]
    createClientSocket_result [where s = "fixed_os 3 (- 1) 0 (\<lambda>fd. None)" and tr = "[]"
      and ip = "''127.0.0.1''" and iPort = 12347, OF refl refl refl refl refl]
  by (simp add: fixed_os_def word_sless_alt word_sle_eq)

text \<open>
  C10. When \<open>createClientSocket\<close> has a descriptor and then \<open>inet_pton\<close> or
  \<open>connect\<close> fails, it returns \<open>-1\<close>, has called \<open>close\<close> on nothing, and the
  descriptor is among the open ones after the call: the caller has no handle to it.
  \<open>isPortAvailable\<close> on the same system does close the one descriptor it opened, and
  leaves the open descriptors as they were when it opened none.
\<close>

theorem createClientSocket_leaks_descriptor:
  assumes sock: "iSock = os_socket s tr AF_INET SOCK_STREAM 0"
    and pton: "p = os_inet_pton s (tr @ [EvSocket AF_INET SOCK_STREAM 0 iSock]) AF_INET ip"
    and addr: "addr = \<lparr>sin_family = AF_INET, sin_addr = snd p, sin_port = htons iPort\<rparr>"
    and conn: "c = os_connect s
                 (tr @ [EvSocket AF_INET SOCK_STREAM 0 iSock, EvInet_pton AF_INET ip (fst p)])
                 iSock addr"
    and res: "R = createClientSocket s tr ip iPort"
    and probe: "P = isPortAvailable s tr iPort"
  shows "(\<not> iSock <s 0 \<and> (fst p \<le>s 0 \<or> c <s 0) \<longrightarrow>
            fst R = - 1 \<and> close_calls (new_events tr (snd R)) = [] \<and> iSock \<in> open_fds (snd R))
       \<and> (\<not> iSock <s 0 \<longrightarrow> close_calls (new_events tr (snd P)) = [iSock])
       \<and> (iSock <s 0 \<longrightarrow> open_fds (snd P) = open_fds tr)"
  using assms
  by (simp add: createClientSocket_unfold isPortAvailable_unfold Let_def new_events_def
      close_calls_def open_fds_append)

theorem createClientSocket_leaks_descriptor_witness:
  "fst (createClientSocket (fixed_os 3 0 0 (\<lambda>fd. None)) [] ''localhost'' 12347) = - 1
   \<and> close_calls (snd (createClientSocket (fixed_os 3 0 0 (\<lambda>fd. None)) [] ''localhost'' 12347)) = []
   \<and> 3 \<in> open_fds (snd (createClientSocket (fixed_os 3 0 0 (\<lambda>fd. None)) [] ''localhost'' 12347))
   \<and> fst (createClientSocket (fixed_os 3 (- 1) 0 (\<lambda>fd. None)) [] ''127.0.0.1'' 12347) = - 1
   \<and> 3 \<in> open_fds (snd (createClientSocket (fixed_os 3 (- 1) 0 (\<lambda>fd. None)) [] ''127.0.0.1'' 12347))
   \<and> close_calls (snd (isPortAvailable (fixed_os 3 (- 1) 0 (\<lambda>fd. None)) [] 12347)) = [3]"
  using
    createClientSocket_leaks_descriptor [where s = "fixed_os 3 0 0 (\<lambda>fd. None)" and tr = "[]"
      and ip = "''localhost''" and iPort = 12347, OF refl refl refl refl refl refl]
    createClientSocket_leaks_descriptor [where s = "fixed_os 3 (- 1) 0 (\<lambda>fd. None)" and tr = "[]"
      and ip = "''127.0.0.1''" and iPort = 12347, OF refl refl refl refl refl refl]
  by (simp add: fixed_os_def word_sless_alt word_sle_eq new_events_def)

section \<open>Receiving with a timeout\<close>

text \<open>
  C1. \<open>recvMsgTimeout\<close> makes one \<open>select\<close>. When it returns 0 the result is
  \<open>TCP_TIME_OUT\<close> and no \<open>recv\<close> was called; when it returns a negative value the
  result is \<open>-1\<close> and no \<open>recv\<close> was called; when it returns a positive value there
  is exactly one \<open>recv\<close>, on the same socket with the caller's length and no flags, and
  the result is \<open>-1\<close> when that failed, \<open>TCP_DISCONNECTION\<close> when it returned 0, and
  its byte count when that is positive (as an \<open>int\<close>: the count itself whenever it is
  below \<open>2^31\<close>).
\<close>

theorem recvMsgTimeout_outcomes:
  assumes sel: "sel = os_select s tr (iSock + 1) [iSock] (select_timeout t)"
    and rcv: "r = fst (fst (sys_recv s
                 (tr @ [EvSelect (iSock + 1) [iSock] (select_timeout t) sel]) iSock len []))"
    and dat: "d = snd (fst (sys_recv s
                 (tr @ [EvSelect (iSock + 1) [iSock] (select_timeout t) sel]) iSock len []))"
    and res: "R = recvMsgTimeout k s tr iSock buf len t"
  shows "(sel = 0 \<longrightarrow>
            fst R = TCP_TIME_OUT k \<and> recv_calls (new_events tr (snd (snd R))) = [])
       \<and> (sel <s 0 \<longrightarrow> fst R = - 1 \<and> recv_calls (new_events tr (snd (snd R))) = [])
       \<and> (0 <s sel \<longrightarrow>
            recv_calls (new_events tr (snd (snd R))) = [(iSock, len, [], r, d)]
            \<and> (0 <s r \<longrightarrow>
                  fst R = scast r \<and> (sint r < 2 ^ 31 \<longrightarrow> sint (fst R) = sint r))
            \<and> (r = 0 \<longrightarrow> fst R = TCP_DISCONNECTION k)
            \<and> (r <s 0 \<longrightarrow> fst R = - 1))"
proof -
  have cast: "sint (scast r :: c_int) = sint r" if "0 <s r" "sint r < 2 ^ 31"
    using that by (intro sint_int_cast) (simp_all add: word_sless_alt)
  have sel_cases: "\<not> sel <s 0" "sel \<noteq> 0" if "0 <s sel"
    using that by (auto simp add: word_sless_alt)
  have r_cases: "\<not> r <s 0" "r \<noteq> 0" if "0 <s r"
    using that by (auto simp add: word_sless_alt)
  have neg: "sel \<noteq> 0" if "sel <s 0"
    using that by (auto simp add: word_sless_alt)
  have R: "R = (let tr1 = tr @ [EvSelect (iSock + 1) [iSock] (select_timeout t) sel];
                    tr2 = tr1 @ [EvRecv iSock len [] r d]
      in if sel <s 0 then (- 1, buf, tr1 @ [EvPerror ''select error''])
         else if sel = 0 then
           (TCP_TIME_OUT k, buf,
            tr1 @ [EvFprintf_stderr (''Timeout: no data received within %d seconds.'' @ [CHR 0x0A])
                     [t]])
         else if r <s 0 then (- 1, store_bytes buf d, tr2 @ [EvPerror ''recv failed''])
         else if r = 0 then (TCP_DISCONNECTION k, store_bytes buf d, tr2)
         else (scast r, store_bytes buf d, tr2))"
    unfolding res recvMsgTimeout_unfold sel rcv dat Let_def by (rule refl)
  have a: "sel = 0 \<longrightarrow>
            fst R = TCP_TIME_OUT k \<and> recv_calls (new_events tr (snd (snd R))) = []"
    by (simp add: R Let_def new_events_def recv_calls_def)
  have b: "sel <s 0 \<longrightarrow> fst R = - 1 \<and> recv_calls (new_events tr (snd (snd R))) = []"
    by (simp add: R Let_def new_events_def recv_calls_def)
  have c: "0 <s sel \<longrightarrow>
            recv_calls (new_events tr (snd (snd R))) = [(iSock, len, [], r, d)]
            \<and> (0 <s r \<longrightarrow>
                  fst R = scast r \<and> (sint r < 2 ^ 31 \<longrightarrow> sint (fst R) = sint r))
            \<and> (r = 0 \<longrightarrow> fst R = TCP_DISCONNECTION k)
            \<and> (r <s 0 \<longrightarrow> fst R = - 1)"
    using cast by (simp add: R Let_def new_events_def recv_calls_def sel_cases r_cases)
  from a b c show ?thesis by blast
qed

theorem recvMsgTimeout_outcomes_witness:
  "fst (recvMsgTimeout sample_sentinels (fixed_os 3 0 0 (\<lambda>fd. Some [72, 105])) [] 3 [0, 0, 0] 3 100) = 0
   \<and> recv_calls (snd (snd (recvMsgTimeout sample_sentinels (fixed_os 3 0 0 (\<lambda>fd. Some [72, 105]))
        [] 3 [0, 0, 0] 3 100))) = []
   \<and> fst (recvMsgTimeout sample_sentinels (fixed_os 3 0 (- 1) (\<lambda>fd. Some [72, 105])) [] 3 [0, 0, 0] 3 100)
       = - 1
   \<and> fst (recvMsgTimeout sample_sentinels (fixed_os 3 0 1 (\<lambda>fd. Some [72, 105])) [] 3 [0, 0, 0] 3 100) = 2
   \<and> recv_calls (snd (snd (recvMsgTimeout sample_sentinels (fixed_os 3 0 1 (\<lambda>fd. Some [72, 105]))
        [] 3 [0, 0, 0] 3 100))) = [(3, 3, [], 2, [72, 105])]
   \<and> fst (recvMsgTimeout sample_sentinels (fixed_os 3 0 1 (\<lambda>fd. Some [])) [] 3 [0, 0, 0] 3 100) = - 2
   \<and> fst (recvMsgTimeout sample_sentinels (fixed_os 3 0 1 (\<lambda>fd. None)) [] 3 [0, 0, 0] 3 100) = - 1"
  using
    recvMsgTimeout_outcomes [where k = sample_sentinels
      and s = "fixed_os 3 0 0 (\<lambda>fd. Some [72, 105])" and tr = "[]" and iSock = 3
      and buf = "[0, 0, 0]" and len = 3 and t = 100, OF refl refl refl refl]
    recvMsgTimeout_outcomes [where k = sample_sentinels
      and s = "fixed_os 3 0 (- 1) (\<lambda>fd. Some [72, 105])" and tr = "[]" and iSock = 3
      and buf = "[0, 0, 0]" and len = 3 and t = 100, OF refl refl refl refl]
    recvMsgTimeout_outcomes [where k = sample_sentinels
      and s = "fixed_os 3 0 1 (\<lambda>fd. Some [72, 105])" and tr = "[]" and iSock = 3
      and buf = "[0, 0, 0]" and len = 3 and t = 100, OF refl refl refl refl]
    recvMsgTimeout_outcomes [where k = sample_sentinels
      and s = "fixed_os 3 0 1 (\<lambda>fd. Some [])" and tr = "[]" and iSock = 3
      and buf = "[0, 0, 0]" and len = 3 and t = 100, OF refl refl refl refl]
    recvMsgTimeout_outcomes [where k = sample_sentinels
      and s = "fixed_os 3 0 1 (\<lambda>fd. None)" and tr = "[]" and iSock = 3
      and buf = "[0, 0, 0]" and len = 3 and t = 100, OF refl refl refl refl]
  by (simp add: fixed_os_def sample_sentinels_def sys_recv_def word_sless_alt new_events_def)

text \<open>
  Where the product \<open>iTimeoutMsec * 1000\<close> fits an \<open>int\<close>, the conversion is exact:
  for \<open>1000 \<le> iTimeoutMsec \<le> 2147483\<close> the one \<open>select\<close> is given \<open>tv_sec = 0\<close>
  and \<open>tv_usec = iTimeoutMsec * 1000\<close>, which is above 999999.
\<close>

lemma recvMsgTimeout_timeval_in_range:
  assumes lo: "1000 \<le>s t" and hi: "t \<le>s 2147483"
  shows "\<exists>tv. select_timeouts (new_events tr (snd (snd (recvMsgTimeout k s tr iSock buf len t)))) = [tv]
           \<and> tv_sec tv = 0 \<and> sint (tv_usec tv) = sint t * 1000 \<and> 999999 < sint (tv_usec tv)"
proof -
  from lo hi have exact: "sint (scast (t * 1000) :: 64 word) = sint t * 1000"
    by (simp add: word_sle_eq sint_scast_up sint_mul_1000)
  from lo have "1000 \<le> sint t"
    by (simp add: word_sle_eq)
  with exact show ?thesis
    by (auto simp add: recvMsgTimeout_unfold Let_def new_events_def select_timeouts_def
        select_timeout_def)
qed

text \<open>
  C2. The property: \<open>tv_usec = timeoutMs * 1000\<close>, above 999999, for every timeout of
  1000 milliseconds or more. Line 219 computes the product in \<open>int\<close> without a guard,
  and from 2147484 milliseconds on it does not fit. The code run at two such timeouts: with
  4294968 milliseconds \<open>select\<close> is given \<open>tv_usec = 704\<close>, which is not above 999999,
  and with 2147484 milliseconds it is given the negative \<open>tv_usec = -2147483296\<close>.
\<close>

theorem recvMsgTimeout_timeval_overflow:
  "1000 \<le>s (4294968 :: c_int)
   \<and> select_timeouts (snd (snd (recvMsgTimeout sample_sentinels (fixed_os 3 0 0 (\<lambda>fd. None))
        [] 3 [] 0 4294968))) = [\<lparr>tv_sec = 0, tv_usec = 704\<rparr>]
   \<and> \<not> (999999 :: 64 word) <s 704
   \<and> 1000 \<le>s (2147484 :: c_int)
   \<and> map (\<lambda>tv. sint (tv_usec tv))
        (select_timeouts (snd (snd (recvMsgTimeout sample_sentinels (fixed_os 3 0 0 (\<lambda>fd. None))
           [] 3 [] 0 2147484)))) = [- 2147483296]"
  by (simp add: recvMsgTimeout_unfold Let_def select_timeouts_def select_timeout_def
      fixed_os_def word_sle_eq word_sless_alt)

section \<open>The server socket\<close>

text \<open>
  C3. On a system that rejects a call on a negative descriptor, as every POSIX system
  does with \<open>EBADF\<close>: whenever one of the calls \<open>createServerSocket\<close> made has failed,
  the process has exited with \<open>EXIT_FAILURE\<close>, and in particular when \<open>socket\<close>
  fails the function exits and returns no value. The test on line 58 compares the
  descriptor with 0, so a failed \<open>socket\<close> (which returns \<open>-1\<close>) passes it; the exit
  comes from the next test, on the \<open>setsockopt\<close> that the system rejects, which is what
  the hypothesis is needed for. The failures of the other calls need no hypothesis.
\<close>

theorem createServerSocket_failure_exits:
  assumes ebadf: "\<forall>tr' fd l n v. fd <s 0 \<longrightarrow> os_setsockopt s tr' fd l n v <s 0"
    and res: "R = createServerSocket s tr iPort iMaxClients"
  shows "((\<exists>e \<in> set (new_events tr (snd R)). failed e) \<longrightarrow> fst R = Exited EXIT_FAILURE)
       \<and> (os_socket s tr AF_INET SOCK_STREAM 0 <s 0 \<longrightarrow>
            fst R = Exited EXIT_FAILURE \<and> (\<forall>v. fst R \<noteq> Returned v))"
proof -
  have neg: "w \<noteq> 0" if "w <s 0" for w :: c_int
    using that by (auto simp add: word_sless_alt)
  have bad: "os_setsockopt s tr' fd l n v \<noteq> 0" if "fd <s 0" for tr' fd l n v
    using ebadf that neg by blast
  have a: "(\<exists>e \<in> set (new_events tr (snd R)). failed e) \<longrightarrow> fst R = Exited EXIT_FAILURE"
    unfolding res createServerSocket_unfold Let_def new_events_def
    using bad neg by (auto split: if_splits)
  have b: "os_socket s tr AF_INET SOCK_STREAM 0 <s 0 \<longrightarrow>
            fst R = Exited EXIT_FAILURE \<and> (\<forall>v. fst R \<noteq> Returned v)"
    unfolding res createServerSocket_unfold Let_def
    using bad by (auto split: if_splits)
  from a b show ?thesis by blast
qed

theorem createServerSocket_failure_exits_witness:
  "fst (createServerSocket (fixed_os (- 1) 0 0 (\<lambda>fd. None)) [] 12347 5) = Exited EXIT_FAILURE
   \<and> fst (createServerSocket (fixed_os 3 (- 1) 0 (\<lambda>fd. None)) [] 12347 5) = Exited EXIT_FAILURE"
proof -
  have e1: "\<forall>tr' fd l n v. fd <s 0 \<longrightarrow>
              os_setsockopt (fixed_os (- 1) 0 0 (\<lambda>fd. None)) tr' fd l n v <s 0"
    by (simp add: fixed_os_def word_sless_alt)
  have e2: "\<forall>tr' fd l n v. fd <s 0 \<longrightarrow>
              os_setsockopt (fixed_os 3 (- 1) 0 (\<lambda>fd. None)) tr' fd l n v <s 0"
    by (simp add: fixed_os_def word_sless_alt)
  have f: "failed (EvSetsockopt 3 SOL_SOCKET (SO_REUSEADDR OR SO_REUSEPORT) 1 (- 1))"
    by (simp add: word_sless_alt)
  have m: "EvSetsockopt 3 SOL_SOCKET (SO_REUSEADDR OR SO_REUSEPORT) 1 (- 1)
            \<in> set (new_events [] (snd (createServerSocket (fixed_os 3 (- 1) 0 (\<lambda>fd. None)) [] 12347 5)))"
    by (simp add: createServerSocket_unfold Let_def new_events_def fixed_os_def word_sless_alt)
  have s1: "os_socket (fixed_os (- 1) 0 0 (\<lambda>fd. None)) [] AF_INET SOCK_STREAM 0 <s 0"
    by (simp add: fixed_os_def word_sless_alt)
  from createServerSocket_failure_exits [OF e1 refl, of "[]" 12347 5] s1
  have "fst (createServerSocket (fixed_os (- 1) 0 0 (\<lambda>fd. None)) [] 12347 5) = Exited EXIT_FAILURE"
    by blast
  moreover from createServerSocket_failure_exits [OF e2 refl, of "[]" 12347 5] f m
  have "fst (createServerSocket (fixed_os 3 (- 1) 0 (\<lambda>fd. None)) [] 12347 5) = Exited EXIT_FAILURE"
    by blast
  ultimately show ?thesis by simp
qed

text \<open>
  The or of the two option names of line 66 is the name \<open>SO_REUSEPORT\<close>: the call
  sets that option, and \<open>SO_REUSEADDR\<close> is not set by it.
\<close>

lemmas optname_defs = SO_REUSEADDR_def SO_REUSEPORT_def SO_KEEPALIVE_def TCP_KEEPIDLE_def
  TCP_KEEPINTVL_def TCP_KEEPCNT_def

lemma reuse_names_or: "SO_REUSEADDR OR SO_REUSEPORT = SO_REUSEPORT"
  by (simp add: optname_defs)

text \<open>
  C4. On a system that rejects a call on a negative descriptor, with every result below
  being the answer of the system to that very call: when \<open>createServerSocket\<close> returns
  a value, it is the descriptor \<open>socket\<close> gave, a positive one, and the calls made are,
  in this order, \<open>socket\<close>; the address-reuse \<open>setsockopt\<close> (option \<open>SO_REUSEPORT\<close>,
  value 1), which returned 0; \<open>SO_KEEPALIVE = 1\<close>, \<open>TCP_KEEPIDLE = 10\<close>,
  \<open>TCP_KEEPINTVL = 5\<close> and \<open>TCP_KEEPCNT = 3\<close>; \<open>bind\<close> of the descriptor to
  \<open>INADDR_ANY\<close> and the port; \<open>listen\<close> on it with the backlog \<open>iMaxClients\<close>; and
  none of them failed, so the descriptor is bound and listening. Read back from the trace,
  the four keep-alive options of the descriptor are 1, 10, 5 and 3. Conversely the
  function returns the descriptor whenever it is not 0 and none of these calls failed.
\<close>

theorem createServerSocket_configured:
  assumes ebadf: "\<forall>tr' fd' l n v. fd' <s 0 \<longrightarrow> os_setsockopt s tr' fd' l n v <s 0"
    and sock: "fd = os_socket s tr AF_INET SOCK_STREAM 0"
    and t1: "tr1 = tr @ [EvSocket AF_INET SOCK_STREAM 0 fd]"
    and r1: "r1 = os_setsockopt s tr1 fd SOL_SOCKET (SO_REUSEADDR OR SO_REUSEPORT) 1"
    and t2: "tr2 = tr1 @ [EvSetsockopt fd SOL_SOCKET (SO_REUSEADDR OR SO_REUSEPORT) 1 r1]"
    and r2: "r2 = os_setsockopt s tr2 fd SOL_SOCKET SO_KEEPALIVE 1"
    and t3: "tr3 = tr2 @ [EvSetsockopt fd SOL_SOCKET SO_KEEPALIVE 1 r2]"
    and r3: "r3 = os_setsockopt s tr3 fd IPPROTO_TCP TCP_KEEPIDLE 10"
    and t4: "tr4 = tr3 @ [EvSetsockopt fd IPPROTO_TCP TCP_KEEPIDLE 10 r3]"
    and r4: "r4 = os_setsockopt s tr4 fd IPPROTO_TCP TCP_KEEPINTVL 5"
    and t5: "tr5 = tr4 @ [EvSetsockopt fd IPPROTO_TCP TCP_KEEPINTVL 5 r4]"
    and r5: "r5 = os_setsockopt s tr5 fd IPPROTO_TCP TCP_KEEPCNT 3"
    and t6: "tr6 = tr5 @ [EvSetsockopt fd IPPROTO_TCP TCP_KEEPCNT 3 r5]"
    and ad: "addr = \<lparr>sin_family = AF_INET, sin_addr = INADDR_ANY, sin_port = htons iPort\<rparr>"
    and r6: "r6 = os_bind s tr6 fd addr"
    and t7: "tr7 = tr6 @ [EvBind fd addr r6]"
    and r7: "r7 = os_listen s tr7 fd iMaxClients"
    and res: "R = createServerSocket s tr iPort iMaxClients"
  shows "(fst R = Returned v \<longrightarrow>
            v = fd \<and> 0 <s fd
            \<and> r1 = 0 \<and> \<not> r2 <s 0 \<and> \<not> r3 <s 0 \<and> \<not> r4 <s 0 \<and> \<not> r5 <s 0
            \<and> \<not> r6 <s 0 \<and> \<not> r7 <s 0
            \<and> new_events tr (snd R) =
                [EvSocket AF_INET SOCK_STREAM 0 fd,
                 EvSetsockopt fd SOL_SOCKET SO_REUSEPORT 1 r1,
                 EvSetsockopt fd SOL_SOCKET SO_KEEPALIVE 1 r2,
                 EvSetsockopt fd IPPROTO_TCP TCP_KEEPIDLE 10 r3,
                 EvSetsockopt fd IPPROTO_TCP TCP_KEEPINTVL 5 r4,
                 EvSetsockopt fd IPPROTO_TCP TCP_KEEPCNT 3 r5,
                 EvBind fd addr r6,
                 EvListen fd iMaxClients r7]
            \<and> option_value (snd R) fd SOL_SOCKET SO_REUSEPORT = Some 1
            \<and> option_value (snd R) fd SOL_SOCKET SO_KEEPALIVE = Some 1
            \<and> option_value (snd R) fd IPPROTO_TCP TCP_KEEPIDLE = Some 10
            \<and> option_value (snd R) fd IPPROTO_TCP TCP_KEEPINTVL = Some 5
            \<and> option_value (snd R) fd IPPROTO_TCP TCP_KEEPCNT = Some 3)
       \<and> (fd \<noteq> 0 \<and> r1 = 0 \<and> \<not> r2 <s 0 \<and> \<not> r3 <s 0 \<and> \<not> r4 <s 0 \<and> \<not> r5 <s 0
            \<and> \<not> r6 <s 0 \<and> \<not> r7 <s 0 \<longrightarrow> fst R = Returned fd)"
proof -
  have run: "R = (let tr8 = tr7 @ [EvListen fd iMaxClients r7]
      in if fd = 0 then (Exited EXIT_FAILURE, tr1 @ [EvPerror ''Socket failed''])
         else if r1 \<noteq> 0 then (Exited EXIT_FAILURE, tr2 @ [EvPerror ''Setsockopt failed''])
         else if r2 <s 0
           then (Exited EXIT_FAILURE, tr3 @ [EvPerror ''Setsockopt SO_KEEPALIVE failed''])
         else if r3 <s 0
           then (Exited EXIT_FAILURE, tr4 @ [EvPerror ''Setsockopt TCP_KEEPIDLE failed''])
         else if r4 <s 0
           then (Exited EXIT_FAILURE, tr5 @ [EvPerror ''Setsockopt TCP_KEEPINTVL failed''])
         else if r5 <s 0
           then (Exited EXIT_FAILURE, tr6 @ [EvPerror ''Setsockopt TCP_KEEPCNT failed''])
         else if r6 <s 0 then (Exited EXIT_FAILURE, tr7 @ [EvPerror ''Bind failed''])
         else if r7 <s 0 then (Exited EXIT_FAILURE, tr8 @ [EvPerror ''Listen failed''])
         else (Returned fd, tr8))"
    unfolding res createServerSocket_unfold sock t1 r1 t2 r2 t3 r3 t4 r4 t5 r5 t6 ad r6 t7 r7
      Let_def
    by (rule refl)
  have bad: "r1 \<noteq> 0" if "fd <s 0"
  proof -
    from ebadf that have "r1 <s 0" unfolding r1 by blast
    then show ?thesis by (auto simp add: word_sless_alt)
  qed
  have pos: "0 <s fd" if "fd \<noteq> 0" "r1 = 0"
  proof -
    from that bad have "\<not> fd <s 0" by blast
    with that(1) show ?thesis
      by (metis signed.not_less_iff_gr_or_eq)
  qed
  have opts: "option_value tr8 fd SOL_SOCKET SO_REUSEPORT = Some 1
            \<and> option_value tr8 fd SOL_SOCKET SO_KEEPALIVE = Some 1
            \<and> option_value tr8 fd IPPROTO_TCP TCP_KEEPIDLE = Some 10
            \<and> option_value tr8 fd IPPROTO_TCP TCP_KEEPINTVL = Some 5
            \<and> option_value tr8 fd IPPROTO_TCP TCP_KEEPCNT = Some 3"
    if tr8: "tr8 = tr7 @ [EvListen fd iMaxClients r7]"
      and ok: "r1 = 0" "\<not> r2 <s 0" "\<not> r3 <s 0" "\<not> r4 <s 0" "\<not> r5 <s 0" for tr8
    using ok unfolding tr8 t7 t6 t5 t4 t3 t2 t1
    by (simp add: option_value_append optname_defs word_sless_alt)
  have fwd: "fst R = Returned v \<longrightarrow>
            v = fd \<and> 0 <s fd
            \<and> r1 = 0 \<and> \<not> r2 <s 0 \<and> \<not> r3 <s 0 \<and> \<not> r4 <s 0 \<and> \<not> r5 <s 0
            \<and> \<not> r6 <s 0 \<and> \<not> r7 <s 0
            \<and> snd R = tr7 @ [EvListen fd iMaxClients r7]"
    using pos unfolding run Let_def by (auto split: if_splits)
  have evs: "new_events tr (tr7 @ [EvListen fd iMaxClients r7]) =
                [EvSocket AF_INET SOCK_STREAM 0 fd,
                 EvSetsockopt fd SOL_SOCKET SO_REUSEPORT 1 r1,
                 EvSetsockopt fd SOL_SOCKET SO_KEEPALIVE 1 r2,
                 EvSetsockopt fd IPPROTO_TCP TCP_KEEPIDLE 10 r3,
                 EvSetsockopt fd IPPROTO_TCP TCP_KEEPINTVL 5 r4,
                 EvSetsockopt fd IPPROTO_TCP TCP_KEEPCNT 3 r5,
                 EvBind fd addr r6,
                 EvListen fd iMaxClients r7]"
    unfolding t7 t6 t5 t4 t3 t2 t1 by (simp add: new_events_def reuse_names_or)
  have bwd: "fd \<noteq> 0 \<and> r1 = 0 \<and> \<not> r2 <s 0 \<and> \<not> r3 <s 0 \<and> \<not> r4 <s 0 \<and> \<not> r5 <s 0
            \<and> \<not> r6 <s 0 \<and> \<not> r7 <s 0 \<longrightarrow> fst R = Returned fd"
    unfolding run Let_def by simp
  from fwd evs opts [OF refl] bwd show ?thesis
    by (metis (no_types, lifting))
qed


theorem createServerSocket_configured_witness:
  "fst (createServerSocket (fixed_os 3 0 0 (\<lambda>fd. None)) [] 12347 5) = Returned 3
   \<and> new_events [] (snd (createServerSocket (fixed_os 3 0 0 (\<lambda>fd. None)) [] 12347 5)) =
       [EvSocket AF_INET SOCK_STREAM 0 3,
        EvSetsockopt 3 SOL_SOCKET SO_REUSEPORT 1 0,
        EvSetsockopt 3 SOL_SOCKET SO_KEEPALIVE 1 0,
        EvSetsockopt 3 IPPROTO_TCP TCP_KEEPIDLE 10 0,
        EvSetsockopt 3 IPPROTO_TCP TCP_KEEPINTVL 5 0,
        EvSetsockopt 3 IPPROTO_TCP TCP_KEEPCNT 3 0,
        EvBind 3 \<lparr>sin_family = AF_INET, sin_addr = INADDR_ANY, sin_port = htons 12347\<rparr> 0,
        EvListen 3 5 0]
   \<and> option_value (snd (createServerSocket (fixed_os 3 0 0 (\<lambda>fd. None)) [] 12347 5)) 3
         SOL_SOCKET SO_KEEPALIVE = Some 1
   \<and> option_value (snd (createServerSocket (fixed_os 3 0 0 (\<lambda>fd. None)) [] 12347 5)) 3
         IPPROTO_TCP TCP_KEEPIDLE = Some 10
   \<and> option_value (snd (createServerSocket (fixed_os 3 0 0 (\<lambda>fd. None)) [] 12347 5)) 3
         IPPROTO_TCP TCP_KEEPINTVL = Some 5
   \<and> option_value (snd (createServerSocket (fixed_os 3 0 0 (\<lambda>fd. None)) [] 12347 5)) 3
         IPPROTO_TCP TCP_KEEPCNT = Some 3
   \<and> fst (createServerSocket
          ((fixed_os 3 0 0 (\<lambda>fd. None))\<lparr>os_bind := \<lambda>tr fd a. - 1\<rparr>) [] 12347 5) \<noteq> Returned 3"
proof -
  have e: "\<forall>tr' fd' l n v. fd' <s 0 \<longrightarrow>
             os_setsockopt (fixed_os 3 0 0 (\<lambda>fd. None)) tr' fd' l n v <s 0"
    by (simp add: fixed_os_def word_sless_alt)
  note th = createServerSocket_configured [OF e refl refl refl refl refl refl refl refl refl
      refl refl refl refl refl refl refl refl,
      where tr = "[]" and iPort = 12347 and iMaxClients = 5 and v = 3]
  from th have ret: "fst (createServerSocket (fixed_os 3 0 0 (\<lambda>fd. None)) [] 12347 5) = Returned 3"
    by (simp add: fixed_os_def word_sless_alt)
  have e': "\<forall>tr' fd' l n v. fd' <s 0 \<longrightarrow>
             os_setsockopt ((fixed_os 3 0 0 (\<lambda>fd. None))\<lparr>os_bind := \<lambda>tr fd a. - 1\<rparr>)
               tr' fd' l n v <s 0"
    by (simp add: fixed_os_def word_sless_alt)
  note th' = createServerSocket_configured [OF e' refl refl refl refl refl refl refl refl refl
      refl refl refl refl refl refl refl refl,
      where tr = "[]" and iPort = 12347 and iMaxClients = 5 and v = 3]
  have refused: "fst (createServerSocket
          ((fixed_os 3 0 0 (\<lambda>fd. None))\<lparr>os_bind := \<lambda>tr fd a. - 1\<rparr>) [] 12347 5) \<noteq> Returned 3"
  proof
    assume "fst (createServerSocket
          ((fixed_os 3 0 0 (\<lambda>fd. None))\<lparr>os_bind := \<lambda>tr fd a. - 1\<rparr>) [] 12347 5) = Returned 3"
    with th' show False
      by (simp add: fixed_os_def word_sless_alt)
  qed
  from th ret refused show ?thesis
    by (simp add: fixed_os_def word_sless_alt)
qed

section \<open>Scanning the client pool\<close>

text \<open>
  The peek asks for one byte, so it returns \<open>-1\<close>, 0 or 1, and storing it in an
  \<open>int\<close> loses nothing.
\<close>

lemma peek_count:
  "fst (fst (sys_recv s tr fd 1 fl)) = - 1 \<or> fst (fst (sys_recv s tr fd 1 fl)) = 0
   \<or> fst (fst (sys_recv s tr fd 1 fl)) = 1"
proof (cases "os_recv s tr fd 1 fl")
  case None
  then show ?thesis by (simp add: sys_recv_def)
next
  case (Some bs)
  then show ?thesis by (cases bs) (simp_all add: sys_recv_def)
qed

lemma peek_int_zero:
  "(scast (fst (fst (sys_recv s tr fd 1 fl))) :: c_int) = 0
     \<longleftrightarrow> fst (fst (sys_recv s tr fd 1 fl)) = 0"
  using peek_count [of s tr fd fl] by auto

lemma checkClientConnections_body_unfold:
  "checkClientConnections_body s (xs, tr) i =
     (let fd = xs ! nat i;
          rd = fst (sys_recv s tr fd 1 [MSG_PEEK, MSG_DONTWAIT]);
          tr1 = tr @ [EvRecv fd 1 [MSG_PEEK, MSG_DONTWAIT] (fst rd) (snd rd)];
          tr2 = tr1 @ [EvPrintf (''Client socket %d appears to have disconnected'' @ [CHR 0x0A]) [fd],
                       EvPrintf (''Client disconnected, closing socket'' @ [CHR 0x0A]) []]
      in if \<not> (0 \<le> i \<and> nat i < length xs) then None
         else if fd = 0 then Some (xs, tr)
         else if fst rd = 0 then Some (xs[nat i := 0], tr2 @ [EvClose fd (os_close s tr2 fd)])
         else Some (xs, tr1))"
  by (simp add: checkClientConnections_body_def handleClientDisconnection_def sys_defs Let_def
      case_prod_beta peek_int_zero [unfolded sys_recv_def Let_def case_prod_beta, simplified])


lemma body_Some:
  assumes "checkClientConnections_body s st i = Some st'"
  shows "0 \<le> i \<and> nat i < length (fst st)
       \<and> length (fst st') = length (fst st)
       \<and> (\<forall>j. j \<noteq> nat i \<longrightarrow> fst st' ! j = fst st ! j)
       \<and> (fst st' ! nat i = fst st ! nat i \<or> fst st' ! nat i = 0)
       \<and> (\<exists>es. snd st' = snd st @ es
              \<and> (\<forall>c \<in> set (recv_calls es). fst c \<noteq> 0)
              \<and> (\<forall>fd \<in> set (close_calls es). fd \<noteq> 0))"
proof (cases st)
  case (Pair xs tr)
  show ?thesis
    using assms unfolding Pair checkClientConnections_body_unfold Let_def
    by (auto simp add: recv_calls_def close_calls_def split: if_splits)
qed

lemma body_total:
  "0 \<le> i \<Longrightarrow> nat i < length (fst st) \<Longrightarrow> \<exists>st'. checkClientConnections_body s st i = Some st'"
  by (cases st) (simp add: checkClientConnections_body_unfold Let_def)

lemma loop_step:
  "i < n \<Longrightarrow> checkClientConnections_body s st i = Some st1 \<Longrightarrow>
     checkClientConnections_loop s n i st = checkClientConnections_loop s n (i + 1) st1"
  by (subst checkClientConnections_loop.simps) simp

lemma loop_done: "\<not> i < n \<Longrightarrow> checkClientConnections_loop s n i st = Some st"
  by (subst checkClientConnections_loop.simps) simp

lemma loop_None:
  "i < n \<Longrightarrow> checkClientConnections_body s st i = None \<Longrightarrow>
     checkClientConnections_loop s n i st = None"
  by (subst checkClientConnections_loop.simps) simp

lemma loop_total:
  "0 \<le> i \<Longrightarrow> n \<le> int (length (fst st)) \<Longrightarrow> \<exists>st'. checkClientConnections_loop s n i st = Some st'"
proof (induction s n i st rule: checkClientConnections_loop.induct)
  case (1 s n i st)
  show ?case
  proof (cases "i < n")
    case False
    then show ?thesis by (simp add: loop_done)
  next
    case True
    with "1.prems" have "nat i < length (fst st)" by linarith
    with "1.prems" obtain st1 where b: "checkClientConnections_body s st i = Some st1"
      using body_total by blast
    from body_Some [OF b] have "length (fst st1) = length (fst st)" by blast
    with "1.IH" [OF True b] "1.prems" obtain st' where
      "checkClientConnections_loop s n (i + 1) st1 = Some st'" by auto
    with True b show ?thesis by (simp add: loop_step)
  qed
qed


lemma loop_frame:
  "checkClientConnections_loop s n i st = Some st' \<Longrightarrow>
     length (fst st') = length (fst st)
     \<and> (\<forall>j. int j < i \<or> n \<le> int j \<longrightarrow> fst st' ! j = fst st ! j)
     \<and> (\<forall>j. fst st' ! j = fst st ! j \<or> fst st' ! j = 0)
     \<and> (\<exists>es. snd st' = snd st @ es
            \<and> (\<forall>c \<in> set (recv_calls es). fst c \<noteq> 0)
            \<and> (\<forall>fd \<in> set (close_calls es). fd \<noteq> 0))"
proof (induction s n i st rule: checkClientConnections_loop.induct)
  case (1 s n i st)
  show ?case
  proof (cases "i < n")
    case False
    with "1.prems" have "st' = st" by (simp add: loop_done)
    then show ?thesis by (simp add: recv_calls_def close_calls_def)
  next
    case True
    show ?thesis
    proof (cases "checkClientConnections_body s st i")
      case None
      with True "1.prems" show ?thesis by (simp add: loop_None)
    next
      case (Some st1)
      with True "1.prems" have run: "checkClientConnections_loop s n (i + 1) st1 = Some st'"
        by (simp add: loop_step)
      note ih = "1.IH" [OF True Some run]
      note b = body_Some [OF Some]
      from b obtain es1 where es1: "snd st1 = snd st @ es1"
        "\<forall>c \<in> set (recv_calls es1). fst c \<noteq> 0" "\<forall>fd \<in> set (close_calls es1). fd \<noteq> 0"
        by blast
      from ih obtain es2 where es2: "snd st' = snd st1 @ es2"
        "\<forall>c \<in> set (recv_calls es2). fst c \<noteq> 0" "\<forall>fd \<in> set (close_calls es2). fd \<noteq> 0"
        by blast
      have len: "length (fst st') = length (fst st)"
        using ih b by simp
      have out: "fst st' ! j = fst st ! j" if "int j < i \<or> n \<le> int j" for j
      proof -
        from b have "0 \<le> i" by blast
        with that True have "j \<noteq> nat i" by linarith
        with b have "fst st1 ! j = fst st ! j" by blast
        moreover from that have "int j < i + 1 \<or> n \<le> int j" by auto
        with ih have "fst st' ! j = fst st1 ! j" by blast
        ultimately show ?thesis by simp
      qed
      have zero: "fst st' ! j = fst st ! j \<or> fst st' ! j = 0" for j
      proof (cases "j = nat i")
        case True
        from b have "0 \<le> i" by blast
        with True have "int j < i + 1" by simp
        with ih have "fst st' ! j = fst st1 ! j" by blast
        with b True show ?thesis by auto
      next
        case False
        with b have "fst st1 ! j = fst st ! j" by blast
        with ih show ?thesis by metis
      qed
      have ev: "snd st' = snd st @ (es1 @ es2)
            \<and> (\<forall>c \<in> set (recv_calls (es1 @ es2)). fst c \<noteq> 0)
            \<and> (\<forall>fd \<in> set (close_calls (es1 @ es2)). fd \<noteq> 0)"
        using es1 es2 by (auto simp add: recv_calls_def close_calls_def)
      from len out zero ev show ?thesis by blast
    qed
  qed
qed


lemma body_agree:
  assumes b: "checkClientConnections_body s (xs, tr) i = Some (xs1, tr1)"
    and len: "length ys = length xs"
    and tk: "take m ys = take m xs"
    and im: "nat i < m"
  shows "\<exists>ys1. checkClientConnections_body s (ys, tr) i = Some (ys1, tr1)
           \<and> take m ys1 = take m xs1 \<and> length ys1 = length xs1"
proof -
  from tk im have same: "ys ! nat i = xs ! nat i"
    by (metis nth_take)
  from tk have upd: "take m (ys[nat i := 0]) = take m (xs[nat i := 0])"
    by (simp add: take_update_swap)
  show ?thesis
    using b len tk upd unfolding checkClientConnections_body_unfold Let_def same
    by (auto split: if_splits)
qed

lemma loop_agree:
  "checkClientConnections_loop s n i st = Some st' \<Longrightarrow> length ys = length (fst st) \<Longrightarrow>
     take (nat n) ys = take (nat n) (fst st) \<Longrightarrow>
     \<exists>ys'. checkClientConnections_loop s n i (ys, snd st) = Some (ys', snd st')
        \<and> take (nat n) ys' = take (nat n) (fst st')"
proof (induction s n i st arbitrary: ys rule: checkClientConnections_loop.induct)
  case (1 s n i st)
  show ?case
  proof (cases "i < n")
    case False
    with "1.prems" show ?thesis by (simp add: loop_done)
  next
    case True
    show ?thesis
    proof (cases "checkClientConnections_body s st i")
      case None
      with True "1.prems" show ?thesis by (simp add: loop_None)
    next
      case (Some st1)
      with True "1.prems" have run: "checkClientConnections_loop s n (i + 1) st1 = Some st'"
        by (simp add: loop_step)
      from body_Some [OF Some] have i0: "0 \<le> i" by blast
      with True have im: "nat i < nat n" by linarith
      from Some have b: "checkClientConnections_body s (fst st, snd st) i = Some (fst st1, snd st1)"
        by simp
      from body_agree [OF b "1.prems"(2) "1.prems"(3) im] obtain ys1 where
        y1: "checkClientConnections_body s (ys, snd st) i = Some (ys1, snd st1)"
          "take (nat n) ys1 = take (nat n) (fst st1)" "length ys1 = length (fst st1)"
        by blast
      from "1.IH" [OF True Some run y1(3) y1(2)] obtain ys' where
        "checkClientConnections_loop s n (i + 1) (ys1, snd st1) = Some (ys', snd st')"
        "take (nat n) ys' = take (nat n) (fst st')"
        by blast
      with True y1(1) show ?thesis by (simp add: loop_step)
    qed
  qed
qed

lemma pool_run:
  "checkClientConnections pool_os [] [5, 0, 7, 9, 11] 4 =
     Some ([0, 0, 7, 9, 11],
           [EvRecv 5 1 [MSG_PEEK, MSG_DONTWAIT] 0 [],
            EvPrintf (''Client socket %d appears to have disconnected'' @ [CHR 0x0A]) [5],
            EvPrintf (''Client disconnected, closing socket'' @ [CHR 0x0A]) [],
            EvClose 5 0,
            EvRecv 7 1 [MSG_PEEK, MSG_DONTWAIT] (- 1) [],
            EvRecv 9 1 [MSG_PEEK, MSG_DONTWAIT] 1 [1]])"
  by (simp add: checkClientConnections_def checkClientConnections_loop.simps
      checkClientConnections_body_unfold Let_def sys_recv_def pool_os_def fixed_os_def
      word_sless_alt)



text \<open>
  C9. A call of \<open>checkClientConnections\<close> within the caller's array (\<open>iMaxClients\<close> at
  most its length) returns, and then the array has the length it had; a slot that held 0 holds 0; every slot holds what it held
  or 0; a slot at \<open>iMaxClients\<close> or beyond holds what it held; no \<open>recv\<close> and no
  \<open>close\<close> of the call was given the descriptor 0; and the slots at \<open>iMaxClients\<close> or
  beyond are not read: with any other values there, the call makes the same calls with
  the same answers, leaves the same values in the slots below \<open>iMaxClients\<close> and those
  other values beyond.
\<close>

theorem checkClientConnections_frame:
  assumes bound: "sint iMaxClients \<le> int (length xs)"
  shows "\<exists>xs' tr'.
           checkClientConnections s tr xs iMaxClients = Some (xs', tr')
         \<and> length xs' = length xs
         \<and> (\<forall>j < length xs. xs ! j = 0 \<longrightarrow> xs' ! j = 0)
         \<and> (\<forall>j < length xs. xs' ! j = xs ! j \<or> xs' ! j = 0)
         \<and> (\<forall>j < length xs. sint iMaxClients \<le> int j \<longrightarrow> xs' ! j = xs ! j)
         \<and> (\<exists>es. tr' = tr @ es
                \<and> (\<forall>c \<in> set (recv_calls es). fst c \<noteq> 0)
                \<and> (\<forall>fd \<in> set (close_calls es). fd \<noteq> 0))
         \<and> (\<forall>ys. length ys = length xs
                  \<and> take (nat (sint iMaxClients)) ys = take (nat (sint iMaxClients)) xs \<longrightarrow>
                checkClientConnections s tr ys iMaxClients =
                  Some (take (nat (sint iMaxClients)) xs' @ drop (nat (sint iMaxClients)) ys, tr'))"
proof -
  let ?n = "sint iMaxClients"
  from bound have "?n \<le> int (length (fst (xs, tr)))" by simp
  from loop_total [OF order_refl this] obtain xs' tr' where
    loop: "checkClientConnections_loop s ?n 0 (xs, tr) = Some (xs', tr')" by force
  then have run: "checkClientConnections s tr xs iMaxClients = Some (xs', tr')"
    by (simp add: checkClientConnections_def)
  note f = loop_frame [OF loop]
  have agree: "checkClientConnections s tr ys iMaxClients =
                 Some (take (nat ?n) xs' @ drop (nat ?n) ys, tr')"
    if ys: "length ys = length xs" "take (nat ?n) ys = take (nat ?n) xs" for ys
  proof -
    from loop_agree [OF loop, of ys] ys obtain ys' where
      yrun: "checkClientConnections_loop s ?n 0 (ys, tr) = Some (ys', tr')"
      and tk: "take (nat ?n) ys' = take (nat ?n) xs'" by auto
    from loop_frame [OF yrun] have ylen: "length ys' = length ys"
      and yout: "\<forall>j. ?n \<le> int j \<longrightarrow> ys' ! j = ys ! j" by auto
    have "drop (nat ?n) ys' = drop (nat ?n) ys"
    proof (rule nth_equalityI)
      show "length (drop (nat ?n) ys') = length (drop (nat ?n) ys)"
        using ylen by simp
    next
      fix k assume "k < length (drop (nat ?n) ys')"
      then have "nat ?n + k < length ys'" by simp
      moreover have "?n \<le> int (nat ?n + k)" by linarith
      ultimately show "drop (nat ?n) ys' ! k = drop (nat ?n) ys ! k"
        using yout ylen by simp
    qed
    with tk have "ys' = take (nat ?n) xs' @ drop (nat ?n) ys"
      by (metis append_take_drop_id)
    with yrun show ?thesis by (simp add: checkClientConnections_def)
  qed
  from f have len: "length xs' = length xs"
    and same_or_zero: "\<forall>j. xs' ! j = xs ! j \<or> xs' ! j = 0"
    and beyond: "\<forall>j. ?n \<le> int j \<longrightarrow> xs' ! j = xs ! j"
    and events: "\<exists>es. tr' = tr @ es
              \<and> (\<forall>c \<in> set (recv_calls es). fst c \<noteq> 0)
              \<and> (\<forall>fd \<in> set (close_calls es). fd \<noteq> 0)"
    by simp_all
  from same_or_zero have zero: "\<forall>j < length xs. xs ! j = 0 \<longrightarrow> xs' ! j = 0"
    by metis
  from run len zero same_or_zero beyond events agree show ?thesis
    by (intro exI [of _ xs'] exI [of _ tr']) blast
qed

theorem checkClientConnections_frame_witness:
  "sint (4 :: c_int) \<le> int (length [5, 0, 7, 9, 11 :: c_int])
   \<and> checkClientConnections pool_os [] [5, 0, 7, 9, 42] 4 =
     Some ([0, 0, 7, 9, 42],
           [EvRecv 5 1 [MSG_PEEK, MSG_DONTWAIT] 0 [],
            EvPrintf (''Client socket %d appears to have disconnected'' @ [CHR 0x0A]) [5],
            EvPrintf (''Client disconnected, closing socket'' @ [CHR 0x0A]) [],
            EvClose 5 0,
            EvRecv 7 1 [MSG_PEEK, MSG_DONTWAIT] (- 1) [],
            EvRecv 9 1 [MSG_PEEK, MSG_DONTWAIT] 1 [1]])"
proof -
  have b: "sint (4 :: c_int) \<le> int (length [5, 0, 7, 9, 11 :: c_int])" by simp
  have same: "length [5, 0, 7, 9, 42 :: c_int] = length [5, 0, 7, 9, 11 :: c_int]
        \<and> take (nat (sint (4 :: c_int))) [5, 0, 7, 9, 42 :: c_int] =
           take (nat (sint (4 :: c_int))) [5, 0, 7, 9, 11]"
    by simp
  from checkClientConnections_frame [OF b, of pool_os "[]"] obtain xs' tr' where
    run: "checkClientConnections pool_os [] [5, 0, 7, 9, 11] 4 = Some (xs', tr')"
    and other: "\<forall>ys. length ys = length [5, 0, 7, 9, 11 :: c_int]
                  \<and> take (nat (sint (4 :: c_int))) ys = take (nat (sint (4 :: c_int))) [5, 0, 7, 9, 11] \<longrightarrow>
                checkClientConnections pool_os [] ys 4 =
                  Some (take (nat (sint (4 :: c_int))) xs' @ drop (nat (sint (4 :: c_int))) ys, tr')"
    by blast
  from other same have "checkClientConnections pool_os [] [5, 0, 7, 9, 42] 4 =
      Some (take (nat (sint (4 :: c_int))) xs' @ drop (nat (sint (4 :: c_int))) [5, 0, 7, 9, 42], tr')"
    by blast
  moreover from run pool_run have "xs' = [0, 0, 7, 9, 11]"
    and "tr' = [EvRecv 5 1 [MSG_PEEK, MSG_DONTWAIT] 0 [],
            EvPrintf (''Client socket %d appears to have disconnected'' @ [CHR 0x0A]) [5],
            EvPrintf (''Client disconnected, closing socket'' @ [CHR 0x0A]) [],
            EvClose 5 0,
            EvRecv 7 1 [MSG_PEEK, MSG_DONTWAIT] (- 1) [],
            EvRecv 9 1 [MSG_PEEK, MSG_DONTWAIT] 1 [1]]"
    by simp_all
  ultimately show ?thesis using b by simp
qed

section \<open>Sending and receiving\<close>

text \<open>A byte count below \<open>2^31\<close> is the same number as \<open>ssize_t\<close> and as \<open>int\<close>.\<close>

lemma sint_count64:
  assumes "n < 2 ^ 63" shows "sint (of_nat n :: 64 word) = int n"
proof -
  have "sint (of_nat n :: 64 word) = signed_take_bit 63 (int n)"
    by (simp add: signed_of_nat)
  also have "\<dots> = int n"
    using assms by (intro signed_take_bit_int_eq_self) simp_all
  finally show ?thesis .
qed

lemma count_fits:
  assumes "n < 2 ^ 31"
  shows "unat (of_nat n :: 64 word) = n" and "\<not> (of_nat n :: 64 word) <s 0"
    and "scast (of_nat n :: 64 word) = (of_nat n :: c_int)"
    and "sint (of_nat n :: c_int) = int n"
proof -
  from assms have n63: "n < 2 ^ 63" by (rule less_le_trans) simp
  from assms have n64: "n < 2 ^ 64" by (rule less_le_trans) simp
  from n64 show "unat (of_nat n :: 64 word) = n"
    by (simp add: unat_of_nat)
  from n63 show "\<not> (of_nat n :: 64 word) <s 0"
    by (simp add: word_sless_alt sint_count64)
  show "scast (of_nat n :: 64 word) = (of_nat n :: c_int)"
    by (simp add: scast_eq sint_count64 [OF n63])
  have "sint (of_nat n :: c_int) = signed_take_bit 31 (int n)"
    by (simp add: signed_of_nat)
  also have "\<dots> = int n"
    using assms by (intro signed_take_bit_int_eq_self) simp_all
  finally show "sint (of_nat n :: c_int) = int n" .
qed

lemma sendMessage_unfold:
  "sendMessage s tr iSock buf len =
     (let payload = take (unat len) buf;
          sent = (case os_send s tr iSock payload [] of
                    None \<Rightarrow> - 1 | Some k \<Rightarrow> of_nat (min k (length payload)));
          tr1 = tr @ [EvSend iSock payload [] sent]
      in if sent <s 0 then (- 1, tr1 @ [EvPerror ''send failed'']) else (scast sent, tr1))"
  by (simp add: sendMessage_def sys_defs Let_def)

lemma recvMsgBlocking_unfold:
  "recvMsgBlocking s tr iSock buf len =
     (let rd = fst (sys_recv s tr iSock len []);
          tr1 = tr @ [EvRecv iSock len [] (fst rd) (snd rd)]
      in if fst rd <s 0 then (- 1, store_bytes buf (snd rd), tr1 @ [EvPerror ''recv failed''])
         else (scast (fst rd), store_bytes buf (snd rd), tr1))"
  by (simp add: recvMsgBlocking_def sys_defs Let_def case_prod_beta)

lemma in_flight_after_send:
  assumes drained: "sum_list (map (delivered b) tr) = length (concat (map (accepted a) tr))"
    and fits: "n < 2 ^ 31"
  shows "in_flight a b (tr @ [EvSend a bs fl (of_nat n)]) = take n bs"
  using drained by (simp add: in_flight_def count_fits [OF fits])

text \<open>
  On a connected pair with nothing in flight, where one \<open>send\<close> takes at most \<open>k\<close>
  bytes and one \<open>recv\<close> delivers at most \<open>m\<close>: \<open>sendMessage\<close> returns the number of
  bytes its one \<open>send\<close> took, and \<open>recvMsgBlocking\<close> on the peer returns the number
  \<open>j\<close> of bytes its one \<open>recv\<close> delivered and puts the first \<open>j\<close> bytes of the
  payload at the start of the buffer. Only when both calls move all \<open>N\<close> bytes is
  \<open>j = N\<close>.
\<close>

lemma send_recv_one_call_each:
  assumes drained: "sum_list (map (delivered b) tr) = length (concat (map (accepted a) tr))"
    and size: "length payload = N" "0 < N" "N < 2 ^ 31"
    and os: "0 < k" "0 < m" "0 < unat len"
    and sys: "S = stream_os a b k m"
    and sent: "tr1 = snd (sendMessage S tr a payload (of_nat N))"
    and got: "j = min (unat len) (min m (min k N))"
  shows "fst (sendMessage S tr a payload (of_nat N)) = of_nat (min k N)
       \<and> tr1 = tr @ [EvSend a payload [] (of_nat (min k N))]
       \<and> recvMsgBlocking S tr1 b buf len =
           (of_nat j, take j payload @ drop j buf, tr1 @ [EvRecv b len [] (of_nat j) (take j payload)])
       \<and> sint (of_nat j :: c_int) = int j \<and> 0 < j \<and> j \<le> N
       \<and> (N \<le> k \<and> N \<le> m \<and> N \<le> unat len \<longrightarrow> j = N \<and> take j payload = payload)"
proof -
  from size have kN: "min k N < 2 ^ 31" by simp
  from size got have j31: "j < 2 ^ 31" by simp
  from os size got have jpos: "0 < j" and jN: "j \<le> N" by simp_all
  have send: "sendMessage S tr a payload (of_nat N) =
                (of_nat (min k N), tr @ [EvSend a payload [] (of_nat (min k N))])"
    using size by (simp add: sendMessage_unfold Let_def sys stream_os_def
        count_fits [OF size(3)] count_fits [OF kN])
  then have tr1: "tr1 = tr @ [EvSend a payload [] (of_nat (min k N))]"
    by (simp add: sent)
  have fl: "in_flight a b tr1 = take (min k N) payload"
    unfolding tr1 by (rule in_flight_after_send [OF drained kN])
  with os size have ne: "in_flight a b tr1 \<noteq> []" by auto
  have d: "take (unat len) (take m (take (min k N) payload)) = take j payload"
    by (simp add: got min.commute min.left_commute)
  have lenj: "length (take j payload) = j"
    using jN size by simp
  have deliv: "os_recv S tr1 b len [] = Some (take m (take (min k N) payload))"
    using ne by (simp add: sys stream_os_def fl)
  have rcv: "fst (sys_recv S tr1 b len []) = (of_nat j, take j payload)"
  proof -
    from got have e: "min (unat len) (min m (min k N)) = j" by simp
    from jN size have e2: "min (length payload) j = j" by simp
    show ?thesis by (simp add: sys_recv_def deliv e e2)
  qed
  have recv: "recvMsgBlocking S tr1 b buf len =
           (of_nat j, take j payload @ drop j buf, tr1 @ [EvRecv b len [] (of_nat j) (take j payload)])"
  proof -
    from jN size have e2: "min (length payload) j = j" by simp
    show ?thesis
      by (simp add: recvMsgBlocking_unfold Let_def rcv count_fits [OF j31] store_bytes_def e2)
  qed
  have full: "N \<le> k \<and> N \<le> m \<and> N \<le> unat len \<longrightarrow> j = N \<and> take j payload = payload"
    using size got by auto
  from send have first: "fst (sendMessage S tr a payload (of_nat N)) = of_nat (min k N)"
    by simp
  from first tr1 recv count_fits(4) [OF j31] jpos jN full show ?thesis
    by blast
qed

text \<open>
  C7. The property: \<open>recvMsgBlocking\<close> returns exactly \<open>N\<close> with the bytes of the
  payload, for every payload of \<open>N\<close> bytes sent with \<open>sendMessage\<close>; the header
  describes the function as blocking until the reception is complete, and the test
  \<^verbatim>\<open>SendAndReceiveBlocking\<close> asserts the received size to be the sent one. The
  function makes one \<open>recv\<close> with no flags and does not repeat it. The code run on a
  pair whose \<open>recv\<close> delivers one byte at a time: \<open>sendMessage\<close> of the 2 bytes
  returns 2, and \<open>recvMsgBlocking\<close> on the peer, asked for 2 bytes, returns 1 with
  only the first byte in the buffer.
\<close>

theorem recvMsgBlocking_short_read:
  "fst (sendMessage (stream_os 3 4 100 1) [] 3 [72, 105] 2) = 2
   \<and> fst (recvMsgBlocking (stream_os 3 4 100 1)
            (snd (sendMessage (stream_os 3 4 100 1) [] 3 [72, 105] 2)) 4 [0, 0] 2) = 1
   \<and> fst (snd (recvMsgBlocking (stream_os 3 4 100 1)
            (snd (sendMessage (stream_os 3 4 100 1) [] 3 [72, 105] 2)) 4 [0, 0] 2)) = [72, 0]
   \<and> (1 :: c_int) \<noteq> 2 \<and> [72, 0] \<noteq> [72, 105 :: byte]"
  by (simp add: sendMessage_unfold recvMsgBlocking_unfold Let_def sys_recv_def stream_os_def
      in_flight_def store_bytes_def word_sless_alt)

end
